theory Spec2Isabelle
  imports Complex_Main "HOL-Library.Sublist"
begin

section \<open>Python strings\<close>

text \<open>
  A Python \<open>str\<close> is modelled as a \<open>string\<close> whose characters are the code points
  below 256. On that range \<open>str.isspace\<close> holds for 9..13, 28..32, 0x85 and 0xA0, and
  \<open>str.lower\<close> changes A..Z and 0xC0..0xDE except 0xD7, each to the code point 32 above.
\<close>

definition whitespace :: \<open>char list\<close> where
  \<open>whitespace = [CHR 0x09, CHR 0x0A, CHR 0x0B, CHR 0x0C, CHR 0x0D, CHR 0x1C, CHR 0x1D, CHR 0x1E,
     CHR 0x1F, CHR 0x20, CHR 0x85, CHR 0xA0]\<close>

definition isspace :: \<open>char \<Rightarrow> bool\<close> where
  \<open>isspace c = (c \<in> set whitespace)\<close>

definition strip :: \<open>string \<Rightarrow> string\<close> where
  \<open>strip s = rev (dropWhile isspace (rev (dropWhile isspace s)))\<close>

definition startswith :: \<open>string \<Rightarrow> string \<Rightarrow> bool\<close> where
  \<open>startswith s p = prefix p s\<close>

definition endswith :: \<open>string \<Rightarrow> string \<Rightarrow> bool\<close> where
  \<open>endswith s p = suffix p s\<close>

text \<open>\<open>contains p s\<close> is Python's \<open>p in s\<close> on two strings.\<close>

definition contains :: \<open>string \<Rightarrow> string \<Rightarrow> bool\<close> where
  \<open>contains p s = sublist p s\<close>

definition upper_chars :: string where
  \<open>upper_chars = ''ABCDEFGHIJKLMNOPQRSTUVWXYZ'' @
     [CHR 0xC0, CHR 0xC1, CHR 0xC2, CHR 0xC3, CHR 0xC4, CHR 0xC5, CHR 0xC6, CHR 0xC7, CHR 0xC8,
      CHR 0xC9, CHR 0xCA, CHR 0xCB, CHR 0xCC, CHR 0xCD, CHR 0xCE, CHR 0xCF, CHR 0xD0, CHR 0xD1,
      CHR 0xD2, CHR 0xD3, CHR 0xD4, CHR 0xD5, CHR 0xD6, CHR 0xD8, CHR 0xD9, CHR 0xDA, CHR 0xDB,
      CHR 0xDC, CHR 0xDD, CHR 0xDE]\<close>

definition lower_chars :: string where
  \<open>lower_chars = ''abcdefghijklmnopqrstuvwxyz'' @
     [CHR 0xE0, CHR 0xE1, CHR 0xE2, CHR 0xE3, CHR 0xE4, CHR 0xE5, CHR 0xE6, CHR 0xE7, CHR 0xE8,
      CHR 0xE9, CHR 0xEA, CHR 0xEB, CHR 0xEC, CHR 0xED, CHR 0xEE, CHR 0xEF, CHR 0xF0, CHR 0xF1,
      CHR 0xF2, CHR 0xF3, CHR 0xF4, CHR 0xF5, CHR 0xF6, CHR 0xF8, CHR 0xF9, CHR 0xFA, CHR 0xFB,
      CHR 0xFC, CHR 0xFD, CHR 0xFE]\<close>

definition lower_char :: \<open>char \<Rightarrow> char\<close> where
  \<open>lower_char c = (case map_of (zip upper_chars lower_chars) c of None \<Rightarrow> c | Some l \<Rightarrow> l)\<close>

definition lower :: \<open>string \<Rightarrow> string\<close> where
  \<open>lower s = map lower_char s\<close>

text \<open>\<open>split_on c s\<close> is \<open>s.split(c)\<close> for a one-character separator: the empty string
  gives one empty piece.\<close>

fun split_on :: \<open>char \<Rightarrow> string \<Rightarrow> string list\<close> where
  \<open>split_on sep [] = [[]]\<close>
| \<open>split_on sep (c # cs) =
     (if c = sep then [] # split_on sep cs
      else (case split_on sep cs of [] \<Rightarrow> [[c]] | l # ls \<Rightarrow> (c # l) # ls))\<close>

definition newline :: char where
  \<open>newline = CHR 0x0A\<close>

text \<open>Decimal rendering of a natural number, as an f-string prints a non-negative int.\<close>

definition digit_char :: \<open>nat \<Rightarrow> char\<close> where
  \<open>digit_char d = ''0123456789'' ! d\<close>

fun str_nat :: \<open>nat \<Rightarrow> string\<close> where
  \<open>str_nat n = (if n < 10 then [digit_char n] else str_nat (n div 10) @ [digit_char (n mod 10)])\<close>

declare str_nat.simps [simp del]

section \<open>JSON values and Python's dynamic operations on them\<close>

datatype json =
    JNull
  | JBool bool
  | JNum real
  | JStr string
  | JArr \<open>json list\<close>
  | JObj \<open>(string \<times> json) list\<close>

type_synonym json_object = \<open>(string \<times> json) list\<close>

datatype exn =
    KeyError
  | TypeError
  | AttributeError
  | IndexError
  | JSONDecodeError
  | ValidationError
  | TransportError

text \<open>Truth value of a decoded JSON value in a Python condition.\<close>

fun truthy :: \<open>json \<Rightarrow> bool\<close> where
  \<open>truthy JNull = False\<close>
| \<open>truthy (JBool b) = b\<close>
| \<open>truthy (JNum x) = (x \<noteq> 0)\<close>
| \<open>truthy (JStr s) = (s \<noteq> [])\<close>
| \<open>truthy (JArr xs) = (xs \<noteq> [])\<close>
| \<open>truthy (JObj kv) = (kv \<noteq> [])\<close>

text \<open>\<open>key in v\<close> for a string key: membership in a dict or list, substring of a string,
  \<open>TypeError\<close> on a value that is not iterable.\<close>

fun py_in :: \<open>string \<Rightarrow> json \<Rightarrow> exn + bool\<close> where
  \<open>py_in k (JObj kv) = Inr (map_of kv k \<noteq> None)\<close>
| \<open>py_in k (JArr xs) = Inr (JStr k \<in> set xs)\<close>
| \<open>py_in k (JStr s) = Inr (contains k s)\<close>
| \<open>py_in k v = Inl TypeError\<close>

text \<open>\<open>v[key]\<close> for a string key.\<close>

fun py_getitem :: \<open>json \<Rightarrow> string \<Rightarrow> exn + json\<close> where
  \<open>py_getitem (JObj kv) k = (case map_of kv k of None \<Rightarrow> Inl KeyError | Some v \<Rightarrow> Inr v)\<close>
| \<open>py_getitem v k = Inl TypeError\<close>

text \<open>\<open>v.get(key, default)\<close>: only a dict has the method.\<close>

fun py_get :: \<open>json \<Rightarrow> string \<Rightarrow> json \<Rightarrow> exn + json\<close> where
  \<open>py_get (JObj kv) k d = (case map_of kv k of None \<Rightarrow> Inr d | Some v \<Rightarrow> Inr v)\<close>
| \<open>py_get v k d = Inl AttributeError\<close>

text \<open>\<open>v[0]\<close>: a dict decoded from JSON has string keys only, so the integer key is missing.\<close>

fun py_first :: \<open>json \<Rightarrow> exn + json\<close> where
  \<open>py_first (JArr xs) = (case xs of [] \<Rightarrow> Inl IndexError | x # _ \<Rightarrow> Inr x)\<close>
| \<open>py_first (JStr s) = (case s of [] \<Rightarrow> Inl IndexError | c # _ \<Rightarrow> Inr (JStr [c]))\<close>
| \<open>py_first (JObj kv) = Inl KeyError\<close>
| \<open>py_first v = Inl TypeError\<close>

fun py_len :: \<open>json \<Rightarrow> exn + nat\<close> where
  \<open>py_len (JArr xs) = Inr (length xs)\<close>
| \<open>py_len (JStr s) = Inr (length s)\<close>
| \<open>py_len (JObj kv) = Inr (length kv)\<close>
| \<open>py_len v = Inl TypeError\<close>

text \<open>The items a \<open>for\<close> loop visits: list elements, dict keys, the characters of a string.\<close>

fun py_iter :: \<open>json \<Rightarrow> exn + json list\<close> where
  \<open>py_iter (JArr xs) = Inr xs\<close>
| \<open>py_iter (JObj kv) = Inr (map (\<lambda>p. JStr (fst p)) kv)\<close>
| \<open>py_iter (JStr s) = Inr (map (\<lambda>c. JStr [c]) s)\<close>
| \<open>py_iter v = Inl TypeError\<close>

definition is_dict :: \<open>json \<Rightarrow> bool\<close> where
  \<open>is_dict v = (case v of JObj _ \<Rightarrow> True | _ \<Rightarrow> False)\<close>

section \<open>The framework's data types\<close>

text \<open>
  The classes of \<open>google.genai.types\<close> and of the ADK that the module reads and builds.
  Every field is optional there; a record field is an \<open>option\<close> here. The id of a
  function call is assigned after construction, without validation, so it holds whatever
  JSON value the code assigns.
\<close>

record blob =
  blob_mime_type :: \<open>string option\<close>
  blob_data :: \<open>nat list option\<close>

record file_data =
  fd_file_uri :: \<open>string option\<close>

record function_call =
  fc_id :: json
  fc_name :: \<open>string option\<close>
  fc_args :: \<open>json_object option\<close>

record function_response =
  fr_id :: \<open>string option\<close>
  fr_response :: json

record part =
  part_text :: \<open>string option\<close>
  part_inline_data :: \<open>blob option\<close>
  part_file_data :: \<open>file_data option\<close>
  part_function_call :: \<open>function_call option\<close>
  part_function_response :: \<open>function_response option\<close>

record content =
  content_role :: \<open>string option\<close>
  content_parts :: \<open>part list option\<close>

definition empty_part :: part where
  \<open>empty_part = \<lparr>part_text = None, part_inline_data = None, part_file_data = None,
     part_function_call = None, part_function_response = None\<rparr>\<close>

text \<open>\<open>types.Part(text=v)\<close>: the constructor validates that the text is a string.\<close>

fun text_part_of_json :: \<open>json \<Rightarrow> exn + part\<close> where
  \<open>text_part_of_json (JStr s) = Inr (empty_part\<lparr>part_text := Some s\<rparr>)\<close>
| \<open>text_part_of_json JNull = Inr empty_part\<close>
| \<open>text_part_of_json v = Inl ValidationError\<close>

definition text_part :: \<open>string \<Rightarrow> part\<close> where
  \<open>text_part s = empty_part\<lparr>part_text := Some s\<rparr>\<close>

text \<open>
  \<open>types.Part.from_function_call(name=n, args=a)\<close>: the name must be a string or None, the
  arguments a dict or None; the new call has no id.
\<close>

definition from_function_call :: \<open>json \<Rightarrow> json \<Rightarrow> exn + part\<close> where
  \<open>from_function_call n a =
     (case (case n of JStr s \<Rightarrow> Inr (Some s) | JNull \<Rightarrow> Inr None | _ \<Rightarrow> Inl ValidationError) of
        Inl e \<Rightarrow> Inl e
      | Inr nm \<Rightarrow>
          (case (case a of JObj kv \<Rightarrow> Inr (Some kv) | JNull \<Rightarrow> Inr None | _ \<Rightarrow> Inl ValidationError) of
             Inl e \<Rightarrow> Inl e
           | Inr ar \<Rightarrow>
               Inr (empty_part\<lparr>part_function_call :=
                      Some \<lparr>fc_id = JNull, fc_name = nm, fc_args = ar\<rparr>\<rparr>)))\<close>

text \<open>\<open>if part.function_call: part.function_call.id = v\<close>\<close>

definition set_call_id :: \<open>json \<Rightarrow> part \<Rightarrow> part\<close> where
  \<open>set_call_id v p =
     (case part_function_call p of
        None \<Rightarrow> p
      | Some fc \<Rightarrow> p\<lparr>part_function_call := Some (fc\<lparr>fc_id := v\<rparr>)\<rparr>)\<close>

section \<open>Library functions the module calls\<close>

text \<open>
  \<open>json.loads\<close> (\<open>None\<close> stands for \<open>JSONDecodeError\<close>), \<open>json.dumps\<close>, the built-in
  \<open>hash\<close> of a string, \<open>base64.b64encode(...).decode()\<close> and the framework's
  \<open>_maybe_append_user_content\<close> are not part of the module: they are parameters of the
  model, collected in one record.
\<close>

record externals =
  json_loads :: \<open>string \<Rightarrow> json option\<close>
  json_dumps :: \<open>json \<Rightarrow> string\<close>
  py_hash :: \<open>string \<Rightarrow> int\<close>
  b64encode :: \<open>nat list \<Rightarrow> string\<close>
  maybe_append_user_content :: \<open>content list \<Rightarrow> content list\<close>

section \<open>Heuristic function-call recovery\<close>

text \<open>\<open>f"call_{hash(content) % 10000}"\<close>\<close>

definition synth_call_id :: \<open>externals \<Rightarrow> string \<Rightarrow> json\<close> where
  \<open>synth_call_id X c = JStr (''call_'' @ str_nat (nat (py_hash X c mod 10000)))\<close>

definition make_recovered_call :: \<open>externals \<Rightarrow> string \<Rightarrow> json \<Rightarrow> json \<Rightarrow> exn + part option\<close> where
  \<open>make_recovered_call X c func_name func_args =
     (case from_function_call func_name func_args of
        Inl e \<Rightarrow> Inl e
      | Inr p \<Rightarrow> Inr (Some (set_call_id (synth_call_id X c) p)))\<close>

text \<open>\<open>v if isinstance(v, dict) else {}\<close>\<close>

definition dict_or_empty :: \<open>json \<Rightarrow> json\<close> where
  \<open>dict_or_empty v = (if is_dict v then v else JObj [])\<close>

text \<open>
  The arguments of the nested shape: \<open>func_data.get('parameters', {})\<close>, decoded when it is
  a string, with \<open>{}\<close> when the decoding fails.
\<close>

definition nested_args :: \<open>externals \<Rightarrow> json_object \<Rightarrow> json\<close> where
  \<open>nested_args X func_data =
     (case map_of func_data ''parameters'' of
        None \<Rightarrow> JObj []
      | Some (JStr s) \<Rightarrow> (case json_loads X s of None \<Rightarrow> JObj [] | Some v \<Rightarrow> v)
      | Some v \<Rightarrow> v)\<close>

text \<open>
  \<open>_try_parse_function_call_from_text\<close>. The handler of the \<open>try\<close> block catches
  \<open>JSONDecodeError\<close>, \<open>KeyError\<close> and \<open>TypeError\<close> and returns None; a decoded value that
  is not a dict has no \<open>get\<close> and the \<open>AttributeError\<close> leaves the function, as does a
  \<open>ValidationError\<close> of the part constructor.
\<close>

definition try_parse_function_call_from_text :: \<open>externals \<Rightarrow> string \<Rightarrow> bool \<Rightarrow> exn + part option\<close> where
  \<open>try_parse_function_call_from_text X content allow_conversion =
     (if \<not> allow_conversion then Inr None
      else
        let content_stripped = strip content in
        if \<not> (startswith content_stripped ''{'' \<and> endswith content_stripped ''}'') then Inr None
        else
          (case json_loads X content_stripped of
             None \<Rightarrow> Inr None
           | Some (JObj d) \<Rightarrow>
               if map_of d ''type'' = Some (JStr ''function'')
                  \<and> map_of d ''function'' \<noteq> None \<and> map_of d ''parameters'' \<noteq> None
               then
                 (case (map_of d ''function'', map_of d ''parameters'') of
                    (Some func_name, Some ps) \<Rightarrow>
                      make_recovered_call X content_stripped func_name (dict_or_empty ps)
                  | _ \<Rightarrow> Inr None)
               else if map_of d ''name'' \<noteq> None \<and> map_of d ''parameters'' \<noteq> None
               then
                 (case (map_of d ''name'', map_of d ''parameters'') of
                    (Some func_name, Some ps) \<Rightarrow>
                      make_recovered_call X content_stripped func_name (dict_or_empty ps)
                  | _ \<Rightarrow> Inr None)
               else
                 (case map_of d ''function'' of
                    Some (JObj func_data) \<Rightarrow>
                      (case map_of func_data ''name'' of
                         Some func_name \<Rightarrow>
                           make_recovered_call X content_stripped func_name (nested_args X func_data)
                       | None \<Rightarrow> Inr None)
                  | _ \<Rightarrow> Inr None)
           | Some _ \<Rightarrow> Inl AttributeError))\<close>


section \<open>Message Encoder\<close>

datatype content_item =
    TextItem string
  | ImageUrlItem string
  | InputAudioItem string string

text \<open>The \<open>content\<close> of a message: a bare string or a list of content items.\<close>

datatype message_content =
    ContentStr string
  | ContentItems \<open>content_item list\<close>

text \<open>\<open>{"id": .., "type": "function", "function": {"name": .., "arguments": ..}}\<close>\<close>

record tool_call_entry =
  tce_id :: json
  tce_name :: \<open>string option\<close>
  tce_arguments :: string

text \<open>
  A message of the target API: \<open>{role, content, tool_calls?}\<close>, or
  \<open>{role: "tool", tool_call_id, content}\<close>.
\<close>

datatype message =
    ChatMessage string message_content \<open>tool_call_entry list option\<close>
  | ToolMessage \<open>string option\<close> string

fun message_role :: \<open>message \<Rightarrow> string\<close> where
  \<open>message_role (ChatMessage r c tcs) = r\<close>
| \<open>message_role (ToolMessage i c) = ''tool''\<close>

fun message_content_of :: \<open>message \<Rightarrow> message_content\<close> where
  \<open>message_content_of (ChatMessage r c tcs) = c\<close>
| \<open>message_content_of (ToolMessage i c) = ContentStr c\<close>

definition convert_role :: \<open>string option \<Rightarrow> string\<close> where
  \<open>convert_role r =
     (if r = Some ''model'' \<or> r = Some ''assistant'' then ''assistant''
      else if r = Some ''user'' then ''user''
      else if r = Some ''system'' then ''system''
      else ''user'')\<close>

definition args_json :: \<open>json_object option \<Rightarrow> json\<close> where
  \<open>args_json a = (case a of None \<Rightarrow> JNull | Some kv \<Rightarrow> JObj kv)\<close>

text \<open>The value of an optional string or list in a condition or a use: None reads as empty.\<close>

definition opt_list :: \<open>'a list option \<Rightarrow> 'a list\<close> where
  \<open>opt_list v = (case v of None \<Rightarrow> [] | Some xs \<Rightarrow> xs)\<close>

text \<open>The content items one part contributes in \<open>_convert_parts_to_content\<close>: the branch
  for a file reference, the branch for inline data, and the whole chain.\<close>

definition file_items :: \<open>part \<Rightarrow> content_item list\<close> where
  \<open>file_items p =
     (case part_file_data p of
        None \<Rightarrow> []
      | Some f \<Rightarrow>
          (let uri = opt_list (fd_file_uri f) in
           if uri = [] then []
           else if startswith uri ''http://'' \<or> startswith uri ''https://''
           then [ImageUrlItem uri]
           else [TextItem (''[File: '' @ uri @ '']'')]))\<close>

definition inline_items :: \<open>externals \<Rightarrow> string \<Rightarrow> nat list \<Rightarrow> content_item list\<close> where
  \<open>inline_items X mime bytes =
     (if startswith mime ''image''
      then [ImageUrlItem (''data:'' @ mime @ '';base64,'' @ b64encode X bytes)]
      else if startswith mime ''audio''
      then [InputAudioItem (b64encode X bytes) (last (split_on (CHR ''/'') mime))]
      else [])\<close>

definition part_content_items :: \<open>externals \<Rightarrow> part \<Rightarrow> content_item list\<close> where
  \<open>part_content_items X p =
     (if opt_list (part_text p) \<noteq> [] then [TextItem (opt_list (part_text p))]
      else
        (case part_inline_data p of
           None \<Rightarrow> file_items p
         | Some b \<Rightarrow>
             if opt_list (blob_mime_type b) \<noteq> [] \<and> opt_list (blob_data b) \<noteq> []
             then inline_items X (opt_list (blob_mime_type b)) (opt_list (blob_data b))
             else file_items p))\<close>

definition convert_parts_to_content :: \<open>externals \<Rightarrow> part list \<Rightarrow> message_content\<close> where
  \<open>convert_parts_to_content X ps =
     (let items = concat (map (part_content_items X) ps) in
      case items of
        [TextItem t] \<Rightarrow> ContentStr t
      | [] \<Rightarrow> ContentStr []
      | _ \<Rightarrow> ContentItems items)\<close>

definition tool_call_entries :: \<open>externals \<Rightarrow> part list \<Rightarrow> tool_call_entry list\<close> where
  \<open>tool_call_entries X ps =
     concat (map (\<lambda>p. case part_function_call p of
                          None \<Rightarrow> []
                        | Some fc \<Rightarrow>
                            [\<lparr>tce_id = fc_id fc, tce_name = fc_name fc,
                              tce_arguments = json_dumps X (args_json (fc_args fc))\<rparr>]) ps)\<close>

definition tool_messages :: \<open>externals \<Rightarrow> part list \<Rightarrow> message list\<close> where
  \<open>tool_messages X ps =
     concat (map (\<lambda>p. case part_function_response p of
                          None \<Rightarrow> []
                        | Some fr \<Rightarrow> [ToolMessage (fr_id fr) (json_dumps X (fr_response fr))]) ps)\<close>

text \<open>The messages one Content entry contributes: the body of the loop.\<close>

definition content_messages :: \<open>externals \<Rightarrow> content \<Rightarrow> message list\<close> where
  \<open>content_messages X c =
     (let ps = opt_list (content_parts c) in
      if list_ex (\<lambda>p. part_function_response p \<noteq> None) ps
      then tool_messages X ps
      else
        [ChatMessage (convert_role (content_role c)) (convert_parts_to_content X ps)
           (if (content_role c = Some ''model'' \<or> content_role c = Some ''assistant'')
               \<and> tool_call_entries X ps \<noteq> []
            then Some (tool_call_entries X ps) else None)])\<close>

definition convert_contents_to_messages :: \<open>externals \<Rightarrow> content list \<Rightarrow> message list\<close> where
  \<open>convert_contents_to_messages X contents = concat (map (content_messages X) contents)\<close>

section \<open>Normalized responses\<close>

datatype finish_reason = STOP | MAX_TOKENS | SAFETY | FINISH_REASON_UNSPECIFIED

text \<open>The message of an error response: a fixed text, or \<open>str(e)\<close> of the exception caught.\<close>

datatype error_text = Text string | StrOf exn

record llm_response =
  resp_content :: \<open>content option\<close>
  resp_partial :: \<open>bool option\<close>
  resp_finish_reason :: \<open>finish_reason option\<close>
  resp_error_code :: \<open>string option\<close>
  resp_error_message :: \<open>error_text option\<close>

definition model_content :: \<open>part list \<Rightarrow> content\<close> where
  \<open>model_content ps = \<lparr>content_role = Some ''model'', content_parts = Some ps\<rparr>\<close>

text \<open>\<open>LlmResponse(content=Content(role="model", parts=ps), finish_reason=fr)\<close>\<close>

definition final_response :: \<open>part list \<Rightarrow> finish_reason \<Rightarrow> llm_response\<close> where
  \<open>final_response ps fr =
     \<lparr>resp_content = Some (model_content ps), resp_partial = None,
      resp_finish_reason = Some fr, resp_error_code = None, resp_error_message = None\<rparr>\<close>

text \<open>\<open>LlmResponse(content=Content(role="model", parts=[Part(text=t)]), partial=True)\<close>\<close>

definition partial_response :: \<open>string \<Rightarrow> llm_response\<close> where
  \<open>partial_response t =
     \<lparr>resp_content = Some (model_content [text_part t]), resp_partial = Some True,
      resp_finish_reason = None, resp_error_code = None, resp_error_message = None\<rparr>\<close>

text \<open>\<open>LlmResponse(error_code=c, error_message=m)\<close>\<close>

definition error_response :: \<open>string \<Rightarrow> error_text \<Rightarrow> llm_response\<close> where
  \<open>error_response c m =
     \<lparr>resp_content = None, resp_partial = None, resp_finish_reason = None,
      resp_error_code = Some c, resp_error_message = Some m\<rparr>\<close>

definition convert_finish_reason :: \<open>string option \<Rightarrow> finish_reason\<close> where
  \<open>convert_finish_reason r =
     (if r = Some ''stop'' then STOP
      else if r = Some ''length'' then MAX_TOKENS
      else if r = Some ''tool_calls'' then STOP
      else if r = Some ''content_filter'' then SAFETY
      else FINISH_REASON_UNSPECIFIED)\<close>

section \<open>Response Decoder\<close>

text \<open>Sequencing of steps that may raise: the first exception ends the computation.\<close>

definition bind_exn :: \<open>exn + 'a \<Rightarrow> ('a \<Rightarrow> exn + 'b) \<Rightarrow> exn + 'b\<close> where
  \<open>bind_exn m f = (case m of Inl e \<Rightarrow> Inl e | Inr v \<Rightarrow> f v)\<close>

text \<open>\<open>json.loads(v)\<close> on a value that need not be a string.\<close>

definition loads_value :: \<open>externals \<Rightarrow> json \<Rightarrow> exn + json\<close> where
  \<open>loads_value X v =
     (case v of
        JStr s \<Rightarrow> (case json_loads X s of None \<Rightarrow> Inl JSONDecodeError | Some r \<Rightarrow> Inr r)
      | _ \<Rightarrow> Inl TypeError)\<close>

text \<open>The recovery applied to a decoded value: \<open>content.strip()\<close> needs a string.\<close>

definition try_parse_value :: \<open>externals \<Rightarrow> json \<Rightarrow> bool \<Rightarrow> exn + part option\<close> where
  \<open>try_parse_value X v allow_conversion =
     (if \<not> allow_conversion then Inr None
      else (case v of
              JStr s \<Rightarrow> try_parse_function_call_from_text X s True
            | _ \<Rightarrow> Inl AttributeError))\<close>

text \<open>
  The body of the inner \<open>try\<close> for one tool call, before its handler: the function name,
  the decoded arguments (\<open>{}\<close> when the argument value is false in a condition), the part
  and its id.
\<close>

definition tool_call_part_raw :: \<open>externals \<Rightarrow> json \<Rightarrow> exn + part\<close> where
  \<open>tool_call_part_raw X tool_call =
     bind_exn (py_getitem tool_call ''function'') (\<lambda>f.
     bind_exn (py_getitem f ''name'') (\<lambda>func_name.
     bind_exn (py_getitem f ''arguments'') (\<lambda>a.
     bind_exn (if truthy a then loads_value X a else Inr (JObj [])) (\<lambda>func_args.
     bind_exn (from_function_call func_name func_args) (\<lambda>p.
     bind_exn (py_get tool_call ''id'' (JStr [])) (\<lambda>i.
     Inr (set_call_id i p)))))))\<close>

text \<open>\<open>except (KeyError, json.JSONDecodeError): continue\<close>: the tool call is skipped.\<close>

definition tool_call_part :: \<open>externals \<Rightarrow> json \<Rightarrow> exn + part option\<close> where
  \<open>tool_call_part X tool_call =
     (case tool_call_part_raw X tool_call of
        Inl KeyError \<Rightarrow> Inr None
      | Inl JSONDecodeError \<Rightarrow> Inr None
      | Inl e \<Rightarrow> Inl e
      | Inr p \<Rightarrow> Inr (Some p))\<close>

text \<open>The loop over the tool calls: the parts in order, or the first exception that is not
  handled per call.\<close>

fun tool_call_parts :: \<open>externals \<Rightarrow> json list \<Rightarrow> exn + part list\<close> where
  \<open>tool_call_parts X [] = Inr []\<close>
| \<open>tool_call_parts X (tc # tcs) =
     bind_exn (tool_call_part X tc) (\<lambda>p.
     bind_exn (tool_call_parts X tcs) (\<lambda>ps.
     Inr ((case p of None \<Rightarrow> [] | Some q \<Rightarrow> [q]) @ ps)))\<close>

text \<open>The parts produced from the content of the message.\<close>

definition content_parts_of :: \<open>externals \<Rightarrow> json \<Rightarrow> json \<Rightarrow> bool \<Rightarrow> exn + part list\<close> where
  \<open>content_parts_of X c tool_calls has_function_responses =
     (if truthy c \<and> \<not> truthy tool_calls then
        bind_exn (try_parse_value X c (\<not> has_function_responses)) (\<lambda>r.
          case r of
            Some function_call_part \<Rightarrow> Inr [function_call_part]
          | None \<Rightarrow> bind_exn (text_part_of_json c) (\<lambda>p. Inr [p]))
      else if truthy c then bind_exn (text_part_of_json c) (\<lambda>p. Inr [p])
      else Inr [])\<close>

text \<open>The body of the \<open>try\<close> block of \<open>_convert_raw_response_to_llm_response\<close>.\<close>

definition convert_raw_response_body :: \<open>externals \<Rightarrow> json \<Rightarrow> bool \<Rightarrow> exn + llm_response\<close> where
  \<open>convert_raw_response_body X response_data has_function_responses =
     bind_exn (py_in ''choices'' response_data) (\<lambda>has_choices.
     if \<not> has_choices then Inr (error_response ''NO_CHOICES'' (Text ''No choices in response''))
     else
     bind_exn (py_getitem response_data ''choices'') (\<lambda>choices.
     if \<not> truthy choices then Inr (error_response ''NO_CHOICES'' (Text ''No choices in response''))
     else
     bind_exn (py_first choices) (\<lambda>choice.
     bind_exn (py_get choice ''message'' (JObj [])) (\<lambda>msg.
     bind_exn (py_get msg ''content'' (JStr [])) (\<lambda>c.
     bind_exn (py_get msg ''tool_calls'' (JArr [])) (\<lambda>tool_calls.
     bind_exn (content_parts_of X c tool_calls has_function_responses) (\<lambda>ps1.
     bind_exn (if truthy tool_calls
               then bind_exn (py_iter tool_calls) (tool_call_parts X)
               else Inr []) (\<lambda>ps2.
     if ps1 @ ps2 \<noteq> [] then Inr (final_response (ps1 @ ps2) STOP)
     else Inr (error_response ''NO_CONTENT'' (Text ''No content in response''))))))))))\<close>

text \<open>\<open>except Exception as e\<close>: any exception becomes a \<open>RAW_CONVERSION_ERROR\<close> response.\<close>

definition convert_raw_response_to_llm_response :: \<open>externals \<Rightarrow> json \<Rightarrow> bool \<Rightarrow> llm_response\<close> where
  \<open>convert_raw_response_to_llm_response X response_data has_function_responses =
     (case convert_raw_response_body X response_data has_function_responses of
        Inl e \<Rightarrow> error_response ''RAW_CONVERSION_ERROR'' (StrOf e)
      | Inr r \<Rightarrow> r)\<close>

subsection \<open>The body that is a server-sent-event stream\<close>

text \<open>
  What one stripped line that starts with \<open>data: \<close> appends to \<open>content_parts\<close>: the
  \<open>choices[0].delta.content\<close> of the decoded frame when it is true in a condition. A frame
  that does not decode is skipped; any other exception leaves the function.
\<close>

definition frame_content :: \<open>externals \<Rightarrow> string \<Rightarrow> exn + json option\<close> where
  \<open>frame_content X line =
     (case json_loads X (drop 6 line) of
        None \<Rightarrow> Inr None
      | Some d \<Rightarrow>
          bind_exn (py_in ''choices'' d) (\<lambda>has_choices.
          if \<not> has_choices then Inr None
          else
          bind_exn (py_getitem d ''choices'') (\<lambda>choices.
          bind_exn (py_len choices) (\<lambda>n.
          if \<not> n > 0 then Inr None
          else
          bind_exn (py_first choices) (\<lambda>choice.
          bind_exn (py_in ''delta'' choice) (\<lambda>has_delta.
          if \<not> has_delta then Inr None
          else
          bind_exn (py_getitem choice ''delta'') (\<lambda>delta.
          bind_exn (py_in ''content'' delta) (\<lambda>has_content.
          if \<not> has_content then Inr None
          else
          bind_exn (py_getitem delta ''content'') (\<lambda>c.
          if truthy c then Inr (Some c) else Inr None)))))))))\<close>

definition line_content :: \<open>externals \<Rightarrow> string \<Rightarrow> exn + json option\<close> where
  \<open>line_content X raw_line =
     (let line = strip raw_line in
      if startswith line ''data: '' then frame_content X line else Inr None)\<close>

fun collect_content :: \<open>externals \<Rightarrow> string list \<Rightarrow> exn + json list\<close> where
  \<open>collect_content X [] = Inr []\<close>
| \<open>collect_content X (l # ls) =
     bind_exn (line_content X l) (\<lambda>c.
     bind_exn (collect_content X ls) (\<lambda>cs.
     Inr ((case c of None \<Rightarrow> [] | Some v \<Rightarrow> [v]) @ cs)))\<close>

text \<open>\<open>''.join(content_parts)\<close>: every item has to be a string.\<close>

fun join_strings :: \<open>json list \<Rightarrow> exn + string\<close> where
  \<open>join_strings [] = Inr []\<close>
| \<open>join_strings (JStr s # vs) = bind_exn (join_strings vs) (\<lambda>r. Inr (s @ r))\<close>
| \<open>join_strings (v # vs) = Inl TypeError\<close>

definition parse_raw_streaming_response :: \<open>externals \<Rightarrow> string \<Rightarrow> bool \<Rightarrow> exn + llm_response\<close> where
  \<open>parse_raw_streaming_response X response_text has_function_responses =
     bind_exn (collect_content X (split_on newline response_text)) (\<lambda>content_parts.
     bind_exn (join_strings content_parts) (\<lambda>full_content.
     if full_content \<noteq> [] then
       bind_exn (try_parse_function_call_from_text X full_content (\<not> has_function_responses)) (\<lambda>r.
         case r of
           Some function_call_part \<Rightarrow> Inr (final_response [function_call_part] STOP)
         | None \<Rightarrow> Inr (final_response [text_part full_content] STOP))
     else Inr (error_response ''NO_CONTENT'' (Text ''No content found in streaming response''))))\<close>

subsection \<open>The raw HTTP request\<close>

text \<open>What \<open>requests.post\<close> gives: an exception, or a response with its status (\<open>True\<close> when
  \<open>raise_for_status\<close> passes) and its body text.\<close>

datatype http_outcome = HttpRaises | HttpResponse bool string

definition has_tool_message :: \<open>message list \<Rightarrow> bool\<close> where
  \<open>has_tool_message messages = list_ex (\<lambda>m. message_role m = ''tool'') messages\<close>

text \<open>
  \<open>_make_raw_http_request_async\<close>, from the response on. \<open>response.json()\<close> decodes the
  body with \<open>json.loads\<close>.
\<close>

definition decode_http_outcome :: \<open>externals \<Rightarrow> message list \<Rightarrow> http_outcome \<Rightarrow> llm_response\<close> where
  \<open>decode_http_outcome X messages outcome =
     (let has_function_responses = has_tool_message messages in
      case outcome of
        HttpRaises \<Rightarrow> error_response ''ASYNC_RAW_HTTP_ERROR'' (StrOf TransportError)
      | HttpResponse ok body \<Rightarrow>
          if \<not> ok then error_response ''ASYNC_RAW_HTTP_ERROR'' (StrOf TransportError)
          else
            let response_text = strip body in
            if startswith response_text ''data:'' then
              (case parse_raw_streaming_response X response_text has_function_responses of
                 Inl e \<Rightarrow> error_response ''ASYNC_RAW_HTTP_ERROR'' (StrOf e)
               | Inr r \<Rightarrow> r)
            else
              (case json_loads X body of
                 None \<Rightarrow> error_response ''ASYNC_RAW_HTTP_ERROR'' (StrOf JSONDecodeError)
               | Some response_data \<Rightarrow>
                   convert_raw_response_to_llm_response X response_data has_function_responses))\<close>

section \<open>Tool Encoder and Schema Translator\<close>

text \<open>A \<open>types.Schema\<close>; its type is the value of the enumeration member.\<close>

datatype schema =
  Schema (schema_type: \<open>string option\<close>) (schema_description: \<open>string option\<close>)
         (schema_properties: \<open>(string \<times> schema) list option\<close>) (schema_items: \<open>schema option\<close>)
         (schema_enum: \<open>string list option\<close>) (schema_required: \<open>string list option\<close>)

record function_declaration =
  decl_name :: \<open>string option\<close>
  decl_description :: \<open>string option\<close>
  decl_parameters :: \<open>schema option\<close>

record tool =
  tool_function_declarations :: \<open>function_declaration list option\<close>

definition opt_str_json :: \<open>string option \<Rightarrow> json\<close> where
  \<open>opt_str_json v = (case v of None \<Rightarrow> JNull | Some s \<Rightarrow> JStr s)\<close>

fun convert_schema :: \<open>schema \<Rightarrow> json\<close> where
  \<open>convert_schema (Schema ty descr props items enum req) =
     JObj
      ((if opt_list ty \<noteq> [] then [(''type'', JStr (lower (opt_list ty)))] else [])
       @ (if opt_list descr \<noteq> [] then [(''description'', JStr (opt_list descr))] else [])
       @ (case props of
            None \<Rightarrow> []
          | Some ps \<Rightarrow>
              if ps = [] then []
              else [(''properties'', JObj (map (\<lambda>p. (fst p, convert_schema (snd p))) ps))])
       @ (case items of None \<Rightarrow> [] | Some i \<Rightarrow> [(''items'', convert_schema i)])
       @ (if opt_list enum \<noteq> [] then [(''enum'', JArr (map JStr (opt_list enum)))] else []))\<close>

text \<open>The \<open>parameters\<close> object of a tool definition.\<close>

definition convert_parameters :: \<open>schema \<Rightarrow> json\<close> where
  \<open>convert_parameters ps =
     JObj
      ([(''type'', JStr ''object''),
        (''properties'',
           JObj (map (\<lambda>p. (fst p, convert_schema (snd p))) (opt_list (schema_properties ps))))]
       @ (if opt_list (schema_required ps) \<noteq> []
          then [(''required'', JArr (map JStr (opt_list (schema_required ps))))] else []))\<close>

definition convert_declaration :: \<open>function_declaration \<Rightarrow> json\<close> where
  \<open>convert_declaration func_decl =
     JObj
      [(''type'', JStr ''function''),
       (''function'',
          JObj
           ([(''name'', opt_str_json (decl_name func_decl)),
             (''description'', JStr (opt_list (decl_description func_decl)))]
            @ (case decl_parameters func_decl of
                 None \<Rightarrow> []
               | Some ps \<Rightarrow> [(''parameters'', convert_parameters ps)])))]\<close>

record generate_content_config =
  cfg_system_instruction :: \<open>string option\<close>
  cfg_tools :: \<open>tool list option\<close>
  cfg_temperature :: \<open>real option\<close>
  cfg_max_output_tokens :: \<open>int option\<close>
  cfg_top_p :: \<open>real option\<close>
  cfg_stop_sequences :: \<open>string list option\<close>
  cfg_presence_penalty :: \<open>real option\<close>
  cfg_frequency_penalty :: \<open>real option\<close>

record llm_request =
  req_contents :: \<open>content list\<close>
  req_config :: generate_content_config

definition convert_tools :: \<open>llm_request \<Rightarrow> json list option\<close> where
  \<open>convert_tools llm_request =
     (if opt_list (cfg_tools (req_config llm_request)) = [] then None
      else
        let tools =
          concat (map (\<lambda>tool_config.
                    map convert_declaration (opt_list (tool_function_declarations tool_config)))
                  (opt_list (cfg_tools (req_config llm_request))))
        in if tools \<noteq> [] then Some tools else None)\<close>

section \<open>Request Orchestrator\<close>

record api_params =
  ap_model :: string
  ap_messages :: \<open>message list\<close>
  ap_stream :: bool
  ap_tools :: \<open>json list option\<close>
  ap_tool_choice :: \<open>string option\<close>
  ap_temperature :: \<open>real option\<close>
  ap_max_tokens :: \<open>int option\<close>
  ap_top_p :: \<open>real option\<close>
  ap_stop :: \<open>string list option\<close>
  ap_presence_penalty :: \<open>real option\<close>
  ap_frequency_penalty :: \<open>real option\<close>

definition add_generation_params :: \<open>api_params \<Rightarrow> generate_content_config \<Rightarrow> api_params\<close> where
  \<open>add_generation_params params config =
     params\<lparr>ap_temperature := cfg_temperature config,
            ap_max_tokens := cfg_max_output_tokens config,
            ap_top_p := cfg_top_p config,
            ap_stop := (if opt_list (cfg_stop_sequences config) \<noteq> []
                        then cfg_stop_sequences config else None),
            ap_presence_penalty := cfg_presence_penalty config,
            ap_frequency_penalty := cfg_frequency_penalty config\<rparr>\<close>

definition tool_keywords :: \<open>string list\<close> where
  \<open>tool_keywords = [''weather'', ''time'', ''temperature'', ''forecast'', ''clock'']\<close>

text \<open>The messages of the request: the converted conversation, after the system message
  when a system instruction is set.\<close>

definition request_messages :: \<open>externals \<Rightarrow> llm_request \<Rightarrow> message list\<close> where
  \<open>request_messages X llm_request =
     (let messages =
            convert_contents_to_messages X (maybe_append_user_content X (req_contents llm_request))
      in if opt_list (cfg_system_instruction (req_config llm_request)) \<noteq> []
         then ChatMessage ''system''
                (ContentStr (opt_list (cfg_system_instruction (req_config llm_request)))) None
              # messages
         else messages)\<close>

text \<open>\<open>last_message.get("content", "")\<close> with \<open>last_message = messages[-1] if messages else {}\<close>\<close>

definition last_content :: \<open>message list \<Rightarrow> message_content\<close> where
  \<open>last_content messages =
     (if messages = [] then ContentStr [] else message_content_of (last messages))\<close>

text \<open>\<open>.lower()\<close> on the content: a list of content items has no such method.\<close>

definition lower_content :: \<open>message_content \<Rightarrow> exn + string\<close> where
  \<open>lower_content c =
     (case c of ContentStr s \<Rightarrow> Inr (lower s) | ContentItems items \<Rightarrow> Inl AttributeError)\<close>

text \<open>The tool attachment: the parameters with the tools and \<open>tool_choice\<close> when the gate
  opens, the parameters unchanged when it stays shut.\<close>

definition attach_tools :: \<open>api_params \<Rightarrow> json list option \<Rightarrow> exn + api_params\<close> where
  \<open>attach_tools params tools =
     (case tools of
        None \<Rightarrow> Inr params
      | Some ts \<Rightarrow>
          if has_tool_message (ap_messages params) then Inr params
          else
            bind_exn (lower_content (last_content (ap_messages params))) (\<lambda>c.
            if list_ex (\<lambda>keyword. contains keyword c) tool_keywords
            then Inr (params\<lparr>ap_tools := Some ts, ap_tool_choice := Some ''auto''\<rparr>)
            else Inr params))\<close>

text \<open>The part of \<open>generate_content_async\<close> that assembles the API parameters.\<close>

definition build_api_params :: \<open>externals \<Rightarrow> string \<Rightarrow> llm_request \<Rightarrow> bool \<Rightarrow> exn + api_params\<close> where
  \<open>build_api_params X model llm_request stream =
     bind_exn
       (attach_tools
          \<lparr>ap_model = model, ap_messages = request_messages X llm_request, ap_stream = stream,
           ap_tools = None, ap_tool_choice = None, ap_temperature = None, ap_max_tokens = None,
           ap_top_p = None, ap_stop = None, ap_presence_penalty = None,
           ap_frequency_penalty = None\<rparr>
          (convert_tools llm_request))
       (\<lambda>params. Inr (add_generation_params params (req_config llm_request)))\<close>

section \<open>Streaming Reconstructor\<close>

text \<open>The chunks of the stream: a bare string, or a chunk object with its choices.\<close>

record function_delta =
  fdelta_name :: \<open>string option\<close>
  fdelta_arguments :: \<open>string option\<close>

record tool_call_delta =
  tcd_index :: int
  tcd_id :: \<open>string option\<close>
  tcd_function :: \<open>function_delta option\<close>

record choice_delta =
  delta_content :: \<open>string option\<close>
  delta_tool_calls :: \<open>tool_call_delta list option\<close>

record stream_choice =
  choice_delta :: choice_delta
  choice_finish_reason :: \<open>string option\<close>

datatype chunk = StrChunk string | ObjChunk \<open>stream_choice list\<close>

text \<open>One entry of \<open>accumulated_tool_calls\<close>; the dict keeps its keys in insertion order.\<close>

record tool_call_data =
  tc_id :: string
  tc_name :: string
  tc_arguments :: string

record stream_state =
  accumulated_content :: string
  accumulated_tool_calls :: \<open>(int \<times> tool_call_data) list\<close>

definition initial_state :: stream_state where
  \<open>initial_state = \<lparr>accumulated_content = [], accumulated_tool_calls = []\<rparr>\<close>

definition looks_like_function_call_in_progress :: \<open>string \<Rightarrow> bool\<close> where
  \<open>looks_like_function_call_in_progress c =
     (let content_stripped = strip c in
      if startswith content_stripped ''{"name"'' \<or> startswith content_stripped ''{"type"'' then True
      else if contains ''{"name"'' content_stripped \<or> contains ''{"type"'' content_stripped then True
      else False)\<close>

text \<open>The update of the entry at one index, in place.\<close>

definition update_entry ::
  \<open>int \<Rightarrow> (tool_call_data \<Rightarrow> tool_call_data) \<Rightarrow> (int \<times> tool_call_data) list \<Rightarrow> (int \<times> tool_call_data) list\<close> where
  \<open>update_entry i f acc = map (\<lambda>p. if fst p = i then (fst p, f (snd p)) else p) acc\<close>

text \<open>One tool-call fragment of a delta: the entry is created at first sight of its index,
  then the name and the argument fragments are appended.\<close>

definition accumulate_tool_call ::
  \<open>(int \<times> tool_call_data) list \<Rightarrow> tool_call_delta \<Rightarrow> (int \<times> tool_call_data) list\<close> where
  \<open>accumulate_tool_call acc tool_call =
     (let i = tcd_index tool_call;
          acc1 = (if map_of acc i = None
                  then acc @ [(i, \<lparr>tc_id = opt_list (tcd_id tool_call), tc_name = [],
                                    tc_arguments = []\<rparr>)]
                  else acc);
          n = (case tcd_function tool_call of None \<Rightarrow> [] | Some f \<Rightarrow> opt_list (fdelta_name f));
          a = (case tcd_function tool_call of None \<Rightarrow> [] | Some f \<Rightarrow> opt_list (fdelta_arguments f));
          acc2 = (if n \<noteq> [] then update_entry i (\<lambda>d. d\<lparr>tc_name := tc_name d @ n\<rparr>) acc1 else acc1)
      in if a \<noteq> [] then update_entry i (\<lambda>d. d\<lparr>tc_arguments := tc_arguments d @ a\<rparr>) acc2
         else acc2)\<close>

text \<open>The arguments of an accumulated tool call: decoded, \<open>{}\<close> when the string is empty or
  does not decode.\<close>

definition decode_arguments :: \<open>externals \<Rightarrow> string \<Rightarrow> json\<close> where
  \<open>decode_arguments X a =
     (if a = [] then JObj []
      else (case json_loads X a of None \<Rightarrow> JObj [] | Some v \<Rightarrow> v))\<close>

text \<open>The loop over the accumulated tool calls at the finish signal: the parts of the entries
  with a name, up to the first exception of the part constructor.\<close>

fun accumulated_parts :: \<open>externals \<Rightarrow> (int \<times> tool_call_data) list \<Rightarrow> exn + part list\<close> where
  \<open>accumulated_parts X [] = Inr []\<close>
| \<open>accumulated_parts X (e # es) =
     (if tc_name (snd e) \<noteq> [] then
        bind_exn (from_function_call (JStr (tc_name (snd e)))
                    (decode_arguments X (tc_arguments (snd e)))) (\<lambda>p.
        bind_exn (accumulated_parts X es) (\<lambda>ps.
        Inr (set_call_id (JStr (tc_id (snd e))) p # ps)))
      else accumulated_parts X es)\<close>

text \<open>
  The handling of a finish signal: the responses it yields, in order, and the exception that
  ends it, if any. A recovered function call is yielded as a response of its own, before
  the loop over the accumulated tool calls.
\<close>

definition handle_completion ::
  \<open>externals \<Rightarrow> stream_state \<Rightarrow> string option \<Rightarrow> llm_response list \<times> exn option\<close> where
  \<open>handle_completion X st finish =
     (case (if accumulated_content st \<noteq> []
            then try_parse_function_call_from_text X (accumulated_content st) True
            else Inr None) of
        Inl e \<Rightarrow> ([], Some e)
      | Inr r \<Rightarrow>
          (let first = (case r of
                          Some function_call_part \<Rightarrow>
                            [final_response [function_call_part] (convert_finish_reason finish)]
                        | None \<Rightarrow> []);
               parts0 = (if accumulated_content st \<noteq> [] \<and> r = None
                         then [text_part (accumulated_content st)] else [])
           in case accumulated_parts X (accumulated_tool_calls st) of
                Inl e \<Rightarrow> (first, Some e)
              | Inr ps \<Rightarrow>
                  (first @ (if parts0 @ ps \<noteq> []
                            then [final_response (parts0 @ ps) (convert_finish_reason finish)]
                            else []),
                   None)))\<close>

text \<open>
  One iteration of the loop over the stream: the new state, the responses yielded and the
  exception raised, if any.
\<close>

definition process_chunk ::
  \<open>externals \<Rightarrow> stream_state \<Rightarrow> chunk \<Rightarrow> stream_state \<times> llm_response list \<times> exn option\<close> where
  \<open>process_chunk X st ch =
     (case ch of
        StrChunk t \<Rightarrow>
          (st\<lparr>accumulated_content := accumulated_content st @ t\<rparr>, [partial_response t], None)
      | ObjChunk [] \<Rightarrow> (st, [], None)
      | ObjChunk (choice # rest) \<Rightarrow>
          (let delta = choice_delta choice;
               token = opt_list (delta_content delta);
               st1 = (if token \<noteq> []
                      then st\<lparr>accumulated_content := accumulated_content st @ token\<rparr> else st);
               out1 = (if token \<noteq> []
                          \<and> \<not> looks_like_function_call_in_progress (accumulated_content st1)
                       then [partial_response token] else []);
               st2 = st1\<lparr>accumulated_tool_calls :=
                           foldl accumulate_tool_call (accumulated_tool_calls st1)
                             (opt_list (delta_tool_calls delta))\<rparr>
           in if opt_list (choice_finish_reason choice) \<noteq> []
              then (case handle_completion X st2 (choice_finish_reason choice) of
                      (out2, err) \<Rightarrow> (st2, out1 @ out2, err))
              else (st2, out1, None)))\<close>

fun run_chunks ::
  \<open>externals \<Rightarrow> stream_state \<Rightarrow> chunk list \<Rightarrow> stream_state \<times> llm_response list \<times> exn option\<close> where
  \<open>run_chunks X st [] = (st, [], None)\<close>
| \<open>run_chunks X st (ch # chs) =
     (case process_chunk X st ch of
        (st1, out1, Some e) \<Rightarrow> (st1, out1, Some e)
      | (st1, out1, None) \<Rightarrow>
          (case run_chunks X st1 chs of (st2, out2, err) \<Rightarrow> (st2, out1 @ out2, err)))\<close>

text \<open>
  \<open>_stream_completion\<close> on the chunks the transport delivers; \<open>fails\<close> says that the
  transport raises after the last of them (or on the request itself, when there are none).
  The handler yields the accumulated text, if any, as a final response.
\<close>

definition stream_completion :: \<open>externals \<Rightarrow> chunk list \<Rightarrow> bool \<Rightarrow> llm_response list\<close> where
  \<open>stream_completion X chunks fails =
     (case run_chunks X initial_state chunks of
        (st, out, err) \<Rightarrow>
          out @ (if (err \<noteq> None \<or> fails) \<and> accumulated_content st \<noteq> []
                 then [final_response [text_part (accumulated_content st)] STOP]
                 else []))\<close>

section \<open>The entry point\<close>

text \<open>What the server does with a request: the chunks of a streaming call and whether the
  stream breaks, and the outcome of the raw HTTP call.\<close>

record transport =
  served_chunks :: \<open>api_params \<Rightarrow> chunk list\<close>
  stream_fails :: \<open>api_params \<Rightarrow> bool\<close>
  post :: \<open>api_params \<Rightarrow> http_outcome\<close>

text \<open>\<open>generate_content_async\<close>: the responses it yields.\<close>

definition generate_content_async ::
  \<open>externals \<Rightarrow> transport \<Rightarrow> string \<Rightarrow> llm_request \<Rightarrow> bool \<Rightarrow> llm_response list\<close> where
  \<open>generate_content_async X T model llm_request stream =
     (case build_api_params X model llm_request stream of
        Inl e \<Rightarrow> [error_response ''TRANSFORMERS_API_ERROR'' (StrOf e)]
      | Inr params \<Rightarrow>
          if stream then stream_completion X (served_chunks T params) (stream_fails T params)
          else
            [decode_http_outcome X (ap_messages params)
               (post T (params\<lparr>ap_stream := False\<rparr>))])\<close>

section \<open>A sample instance of the library functions\<close>

text \<open>
  The theorems below hold for every choice of the library functions. Where a theorem is
  applied to a concrete input, the instance is this one: \<open>json.loads\<close> on a few texts,
  with the value Python decodes them to (every other text counts as not decodable),
  \<open>json.dumps\<close> as its inverse on these values, the length of the text in place of its
  hash, the base64 text of the bytes 1, 2, 3, and \<open>_maybe_append_user_content\<close> as the
  framework defines it.
\<close>

definition sample_documents :: \<open>(string \<times> json) list\<close> where
  \<open>sample_documents =
     [(''{}'', JObj []),
      (''{"city": "Singapore"}'', JObj [(''city'', JStr ''Singapore'')]),
      (''{"name": "get_weather", "parameters": {"city": "Singapore"}}'',
         JObj [(''name'', JStr ''get_weather''),
               (''parameters'', JObj [(''city'', JStr ''Singapore'')])]),
      (''{"type": "function", "function": "get_weather", "parameters": {"city": "Singapore"}}'',
         JObj [(''type'', JStr ''function''), (''function'', JStr ''get_weather''),
               (''parameters'', JObj [(''city'', JStr ''Singapore'')])]),
      (''{"function": {"name": "get_weather", "parameters": {"city": "Singapore"}}}'',
         JObj [(''function'', JObj [(''name'', JStr ''get_weather''),
                                    (''parameters'', JObj [(''city'', JStr ''Singapore'')])])]),
      (''{"function": {"name": "get_weather", "parameters": "{}"}}'',
         JObj [(''function'', JObj [(''name'', JStr ''get_weather''),
                                    (''parameters'', JStr ''{}'')])]),
      (''{"function": {"name": "get_weather", "parameters": null}}'',
         JObj [(''function'', JObj [(''name'', JStr ''get_weather''), (''parameters'', JNull)])]),
      (''{"choices":[{"delta":{"content":"Hello"}}]}'',
         JObj [(''choices'', JArr [JObj [(''delta'', JObj [(''content'', JStr ''Hello'')])]])]),
      (''{"choices":[{"delta":null}]}'',
         JObj [(''choices'', JArr [JObj [(''delta'', JNull)]])]),
      (''{"choices":[{"message":{"content":"Hi"},"finish_reason":"length"}]}'',
         JObj [(''choices'', JArr [JObj [(''message'', JObj [(''content'', JStr ''Hi'')]),
                                         (''finish_reason'', JStr ''length'')]])])]\<close>

definition sample_loads :: \<open>string \<Rightarrow> json option\<close> where
  \<open>sample_loads s = map_of sample_documents s\<close>

definition sample_dumps :: \<open>json \<Rightarrow> string\<close> where
  \<open>sample_dumps v =
     (case find (\<lambda>p. snd p = v) sample_documents of None \<Rightarrow> ''null'' | Some p \<Rightarrow> fst p)\<close>

definition sample_append :: \<open>content list \<Rightarrow> content list\<close> where
  \<open>sample_append contents =
     (if contents = [] then
        [\<lparr>content_role = Some ''user'',
          content_parts =
            Some [text_part ''Handle the requests as specified in the System Instruction.'']\<rparr>]
      else if content_role (last contents) \<noteq> Some ''user'' then
        contents @
        [\<lparr>content_role = Some ''user'',
          content_parts =
            Some [text_part (''Continue processing previous requests as instructed. ''
                             @ ''Exit or provide a summary if no more outputs are needed.'')]\<rparr>]
      else contents)\<close>

definition sample_externals :: externals where
  \<open>sample_externals =
     \<lparr>json_loads = sample_loads, json_dumps = sample_dumps,
      py_hash = (\<lambda>s. int (length s)),
      b64encode = (\<lambda>bytes. if bytes = [1, 2, 3] then ''AQID'' else []),
      maybe_append_user_content = sample_append\<rparr>\<close>

text \<open>Sample parts and entries of a conversation.\<close>

definition sample_result_part :: part where
  \<open>sample_result_part =
     empty_part\<lparr>part_function_response :=
       Some \<lparr>fr_id = Some ''call_1'', fr_response = JObj [(''city'', JStr ''Singapore'')]\<rparr>\<rparr>\<close>

definition sample_result_content :: content where
  \<open>sample_result_content =
     \<lparr>content_role = Some ''user'',
      content_parts = Some [text_part ''note'', sample_result_part]\<rparr>\<close>

text \<open>
  The function-call part the recovery is expected to return for a text, a name and an
  argument object; the object read from a \<open>parameters\<close> value; the three recognised shapes
  of the decoded object.
\<close>

definition recovered_call :: \<open>externals \<Rightarrow> string \<Rightarrow> string \<Rightarrow> json_object \<Rightarrow> part\<close> where
  \<open>recovered_call X txt nm args =
     empty_part\<lparr>part_function_call :=
       Some \<lparr>fc_id = JStr (''call_'' @ str_nat (nat (py_hash X (strip txt) mod 10000))),
             fc_name = Some nm, fc_args = Some args\<rparr>\<rparr>\<close>

definition object_or_empty :: \<open>json \<Rightarrow> json_object\<close> where
  \<open>object_or_empty v = (case v of JObj kv \<Rightarrow> kv | _ \<Rightarrow> [])\<close>

definition shape1 :: \<open>json_object \<Rightarrow> bool\<close> where
  \<open>shape1 d = (map_of d ''type'' = Some (JStr ''function'')
                \<and> map_of d ''function'' \<noteq> None \<and> map_of d ''parameters'' \<noteq> None)\<close>

definition shape2 :: \<open>json_object \<Rightarrow> bool\<close> where
  \<open>shape2 d = (map_of d ''name'' \<noteq> None \<and> map_of d ''parameters'' \<noteq> None)\<close>

definition shape3 :: \<open>json_object \<Rightarrow> bool\<close> where
  \<open>shape3 d = (case map_of d ''function'' of
                  Some (JObj fd) \<Rightarrow> map_of fd ''name'' \<noteq> None
                | _ \<Rightarrow> False)\<close>

text \<open>Sample texts.\<close>

definition text_name_shape :: string where
  \<open>text_name_shape = ''{"name": "get_weather", "parameters": {"city": "Singapore"}}''\<close>

definition text_type_shape :: string where
  \<open>text_type_shape =
     ''{"type": "function", "function": "get_weather", "parameters": {"city": "Singapore"}}''\<close>

definition text_nested_shape :: string where
  \<open>text_nested_shape =
     ''{"function": {"name": "get_weather", "parameters": {"city": "Singapore"}}}''\<close>

definition text_nested_string :: string where
  \<open>text_nested_string = ''{"function": {"name": "get_weather", "parameters": "{}"}}''\<close>

definition text_nested_null :: string where
  \<open>text_nested_null = ''{"function": {"name": "get_weather", "parameters": null}}''\<close>

definition text_no_shape :: string where
  \<open>text_no_shape = ''{"city": "Singapore"}''\<close>

definition call_part :: \<open>string \<Rightarrow> string \<Rightarrow> json_object option \<Rightarrow> part\<close> where
  \<open>call_part i nm args =
     empty_part\<lparr>part_function_call := Some \<lparr>fc_id = JStr i, fc_name = Some nm, fc_args = args\<rparr>\<rparr>\<close>

text \<open>Sample requests: a question about the weather with one declared tool, and a question
  about a picture, with the picture inline, with the same tool.\<close>

definition sample_config :: generate_content_config where
  \<open>sample_config =
     \<lparr>cfg_system_instruction = None,
      cfg_tools = Some
        [\<lparr>tool_function_declarations = Some
            [\<lparr>decl_name = Some ''get_weather'',
              decl_description = Some ''Retrieves the current weather report for a specified city.'',
              decl_parameters = Some
                (Schema (Some ''OBJECT'') None
                   (Some [(''city'', Schema (Some ''STRING'') None None None None None)])
                   None None (Some [''city'']))\<rparr>]\<rparr>],
      cfg_temperature = None, cfg_max_output_tokens = None, cfg_top_p = None,
      cfg_stop_sequences = None, cfg_presence_penalty = None, cfg_frequency_penalty = None\<rparr>\<close>

definition sample_weather_request :: llm_request where
  \<open>sample_weather_request =
     \<lparr>req_contents =
        [\<lparr>content_role = Some ''user'',
          content_parts = Some [text_part ''What's the weather in Singapore?'']\<rparr>],
      req_config = sample_config\<rparr>\<close>

definition sample_picture_request :: llm_request where
  \<open>sample_picture_request =
     \<lparr>req_contents =
        [\<lparr>content_role = Some ''user'',
          content_parts = Some
            [text_part ''What is in this picture?'',
             empty_part\<lparr>part_inline_data :=
               Some \<lparr>blob_mime_type = Some ''image/png'', blob_data = Some [1, 2, 3]\<rparr>\<rparr>]\<rparr>],
      req_config = sample_config\<rparr>\<close>

definition sample_transport :: transport where
  \<open>sample_transport =
     \<lparr>served_chunks = (\<lambda>p. []), stream_fails = (\<lambda>p. False),
      post = (\<lambda>p. HttpResponse True ''{"choices":[{"message":{"content":"Hi"},"finish_reason":"length"}]}'')\<rparr>\<close>

text \<open>A sample payload of the non-streaming API whose choice stopped at the token limit.\<close>

definition length_payload :: json where
  \<open>length_payload =
     JObj [(''choices'', JArr [JObj [(''message'', JObj [(''content'', JStr ''Hi'')]),
                                     (''finish_reason'', JStr ''length'')]])]\<close>

text \<open>Sample bodies of a raw HTTP response.\<close>

definition hello_body :: string where
  \<open>hello_body = ''data: {"choices":[{"delta":{"content":"Hello"}}]}''\<close>

definition length_body :: string where
  \<open>length_body = ''{"choices":[{"message":{"content":"Hi"},"finish_reason":"length"}]}''\<close>

text \<open>
  The reading of one tool call of a payload that the specification describes: a call with a
  function object that has a string name and an argument string is well formed when the
  argument string is empty or null (the arguments are then \<open>{}\<close>) or decodes to an object;
  it is skipped when the argument string does not decode or when a required key is
  missing; every other tool call is outside this reading.
\<close>

datatype call_reading = WellFormed json string json_object | Skipped | Unread

definition read_tool_call :: \<open>externals \<Rightarrow> json \<Rightarrow> call_reading\<close> where
  \<open>read_tool_call X tool_call =
     (case tool_call of
        JObj kv \<Rightarrow>
          (case map_of kv ''function'' of
             None \<Rightarrow> Skipped
           | Some (JObj f) \<Rightarrow>
               (case map_of f ''name'' of
                  None \<Rightarrow> Skipped
                | Some (JStr nm) \<Rightarrow>
                    (case map_of f ''arguments'' of
                       None \<Rightarrow> Skipped
                     | Some JNull \<Rightarrow>
                         WellFormed (case map_of kv ''id'' of None \<Rightarrow> JStr [] | Some i \<Rightarrow> i) nm []
                     | Some (JStr s) \<Rightarrow>
                         if s = []
                         then WellFormed (case map_of kv ''id'' of None \<Rightarrow> JStr [] | Some i \<Rightarrow> i) nm []
                         else (case json_loads X s of
                                 None \<Rightarrow> Skipped
                               | Some (JObj a) \<Rightarrow>
                                   WellFormed (case map_of kv ''id'' of None \<Rightarrow> JStr [] | Some i \<Rightarrow> i) nm a
                               | Some _ \<Rightarrow> Unread)
                     | Some _ \<Rightarrow> Unread)
                | Some _ \<Rightarrow> Unread)
           | Some _ \<Rightarrow> Unread)
      | _ \<Rightarrow> Unread)\<close>

definition read_part :: \<open>call_reading \<Rightarrow> part list\<close> where
  \<open>read_part r =
     (case r of
        WellFormed i nm a \<Rightarrow>
          [empty_part\<lparr>part_function_call := Some \<lparr>fc_id = i, fc_name = Some nm, fc_args = Some a\<rparr>\<rparr>]
      | _ \<Rightarrow> [])\<close>

text \<open>A sample payload with content and three tool calls: one well formed, one with an
  argument string that does not decode, one without arguments.\<close>

definition sample_tool_calls :: \<open>json list\<close> where
  \<open>sample_tool_calls =
     [JObj [(''id'', JStr ''c1''),
            (''function'', JObj [(''name'', JStr ''get_weather''),
                                 (''arguments'', JStr ''{"city": "Singapore"}'')])],
      JObj [(''id'', JStr ''c2''),
            (''function'', JObj [(''name'', JStr ''get_weather''),
                                 (''arguments'', JStr ''{"city": '')])],
      JObj [(''id'', JStr ''c3''),
            (''function'', JObj [(''name'', JStr ''get_weather'')])]]\<close>

definition sample_message :: json_object where
  \<open>sample_message =
     [(''content'', JStr ''Checking the weather.''), (''tool_calls'', JArr sample_tool_calls)]\<close>

definition tool_calls_payload :: json_object where
  \<open>tool_calls_payload = [(''choices'', JArr [JObj [(''message'', JObj sample_message)]])]\<close>

text \<open>
  The reading of one line of a body in server-sent-event form that the specification
  describes. A frame is a line that, stripped, starts with \<open>data: \<close>; a frame that does
  not decode gives no fragment; a decoded frame is an object whose \<open>choices\<close>, if present, is
  a list, whose first choice is an object, whose \<open>delta\<close>, if present, is an object, and
  whose \<open>content\<close>, if present, is a string or null, and it gives the content as its
  fragment when that is a non-empty string. A line that is not a frame gives no fragment. A
  decoded frame of another form, and a line that starts with \<open>data:\<close> without the space,
  are outside this reading.
\<close>

datatype frame_reading = Fragment string | NoFragment | UnreadFrame

definition read_frame :: \<open>json \<Rightarrow> frame_reading\<close> where
  \<open>read_frame d =
     (case d of
        JObj kv \<Rightarrow>
          (case map_of kv ''choices'' of
             None \<Rightarrow> NoFragment
           | Some (JArr cs) \<Rightarrow>
               (case cs of
                  [] \<Rightarrow> NoFragment
                | c # rest \<Rightarrow>
                    (case c of
                       JObj choice \<Rightarrow>
                         (case map_of choice ''delta'' of
                            None \<Rightarrow> NoFragment
                          | Some (JObj delta) \<Rightarrow>
                              (case map_of delta ''content'' of
                                 None \<Rightarrow> NoFragment
                               | Some JNull \<Rightarrow> NoFragment
                               | Some (JStr s) \<Rightarrow> if s = [] then NoFragment else Fragment s
                               | Some _ \<Rightarrow> UnreadFrame)
                          | Some _ \<Rightarrow> UnreadFrame)
                     | _ \<Rightarrow> UnreadFrame))
           | Some _ \<Rightarrow> UnreadFrame)
      | _ \<Rightarrow> UnreadFrame)\<close>

definition read_line :: \<open>externals \<Rightarrow> string \<Rightarrow> frame_reading\<close> where
  \<open>read_line X raw_line =
     (if startswith (strip raw_line) ''data: '' then
        (case json_loads X (drop 6 (strip raw_line)) of
           None \<Rightarrow> NoFragment
         | Some d \<Rightarrow> read_frame d)
      else if startswith (strip raw_line) ''data:'' then UnreadFrame
      else NoFragment)\<close>

definition fragment_text :: \<open>frame_reading \<Rightarrow> string\<close> where
  \<open>fragment_text r = (case r of Fragment s \<Rightarrow> s | _ \<Rightarrow> [])\<close>

definition stream_text :: \<open>externals \<Rightarrow> string \<Rightarrow> string\<close> where
  \<open>stream_text X body =
     concat (map (\<lambda>l. fragment_text (read_line X l)) (split_on newline (strip body)))\<close>

text \<open>Sample bodies: the frame with \<open>Hello\<close> followed by the end marker, the same frame
  without the space after \<open>data:\<close>, and a frame whose \<open>delta\<close> is null.\<close>

definition hello_done_body :: string where
  \<open>hello_done_body = hello_body @ [newline] @ ''data: [DONE]''\<close>

definition nospace_body :: string where
  \<open>nospace_body = ''data:{"choices":[{"delta":{"content":"Hello"}}]}''\<close>

definition null_delta_body :: string where
  \<open>null_delta_body = ''data: {"choices":[{"delta":null}]}''\<close>

text \<open>The responses a run of the loop yields, and the partial ones among them.\<close>

definition yielded :: \<open>externals \<Rightarrow> stream_state \<Rightarrow> chunk list \<Rightarrow> llm_response list\<close> where
  \<open>yielded X st chunks = fst (snd (run_chunks X st chunks))\<close>

definition is_partial :: \<open>llm_response \<Rightarrow> bool\<close> where
  \<open>is_partial r = (resp_partial r = Some True)\<close>

definition is_object_chunk :: \<open>chunk \<Rightarrow> bool\<close> where
  \<open>is_object_chunk ch = (case ch of ObjChunk cs \<Rightarrow> True | StrChunk t \<Rightarrow> False)\<close>

text \<open>A chunk object that carries one text token and nothing else.\<close>

definition token_chunk :: \<open>string \<Rightarrow> chunk\<close> where
  \<open>token_chunk t =
     ObjChunk [\<lparr>choice_delta = \<lparr>delta_content = Some t, delta_tool_calls = None\<rparr>,
                choice_finish_reason = None\<rparr>]\<close>

text \<open>The state of the loop after the tokens \<open>{\<close>, \<open>"\<close> and \<open>name\<close>.\<close>

definition name_state :: stream_state where
  \<open>name_state = \<lparr>accumulated_content = ''{"name'', accumulated_tool_calls = []\<rparr>\<close>

text \<open>A question about the weather in a picture, with the picture inline and one declared
  tool.\<close>

definition sample_weather_picture_request :: llm_request where
  \<open>sample_weather_picture_request =
     \<lparr>req_contents =
        [\<lparr>content_role = Some ''user'',
          content_parts = Some
            [text_part ''What is the weather in this picture?'',
             empty_part\<lparr>part_inline_data :=
               Some \<lparr>blob_mime_type = Some ''image/png'', blob_data = Some [1, 2, 3]\<rparr>\<rparr>]\<rparr>],
      req_config = sample_config\<rparr>\<close>

text \<open>A sample payload with content and two tool calls: one well formed, one whose arguments
  are an object, not a string.\<close>

definition object_arguments_calls :: \<open>json list\<close> where
  \<open>object_arguments_calls =
     [JObj [(''id'', JStr ''c1''),
            (''function'', JObj [(''name'', JStr ''get_weather''),
                                 (''arguments'', JStr ''{"city": "Singapore"}'')])],
      JObj [(''id'', JStr ''c2''),
            (''function'', JObj [(''name'', JStr ''get_weather''),
                                 (''arguments'', JObj [(''city'', JStr ''Singapore'')])])]]\<close>

definition object_arguments_payload :: json where
  \<open>object_arguments_payload =
     JObj [(''choices'',
            JArr [JObj [(''message'',
                         JObj [(''content'', JStr ''Checking the weather.''),
                               (''tool_calls'', JArr object_arguments_calls)])]])]\<close>

text \<open>A chunk object that carries one complete tool-call fragment, and one that carries the
  finish signal only.\<close>

definition call_fragment_chunk :: chunk where
  \<open>call_fragment_chunk =
     ObjChunk [\<lparr>choice_delta =
                  \<lparr>delta_content = None,
                   delta_tool_calls = Some
                     [\<lparr>tcd_index = 0, tcd_id = Some ''c1'',
                       tcd_function = Some \<lparr>fdelta_name = Some ''get_weather'',
                                             fdelta_arguments = Some ''{"city": "Singapore"}''\<rparr>\<rparr>]\<rparr>,
                choice_finish_reason = None\<rparr>]\<close>

definition finish_chunk :: \<open>string \<Rightarrow> chunk\<close> where
  \<open>finish_chunk r =
     ObjChunk [\<lparr>choice_delta = \<lparr>delta_content = None, delta_tool_calls = None\<rparr>,
                choice_finish_reason = Some r\<rparr>]\<close>

section \<open>Properties of the Message Encoder\<close>

lemma text_part_items:
  \<open>part_content_items X (text_part t) = (if t = [] then [] else [TextItem t])\<close>
  by (simp add: part_content_items_def text_part_def empty_part_def opt_list_def file_items_def)

lemma single_text_content:
  \<open>convert_parts_to_content X [text_part t] = ContentStr t\<close>
  by (simp add: convert_parts_to_content_def text_part_items)

lemma text_part_no_call:
  \<open>tool_call_entries X [text_part t] = []\<close>
  by (simp add: tool_call_entries_def text_part_def empty_part_def)

lemma text_part_no_response:
  \<open>part_function_response (text_part t) = None\<close>
  by (simp add: text_part_def empty_part_def)

text \<open>
  C7. A conversation of one user entry with one text part is encoded as the single message
  with role \<open>user\<close> whose content is that text, as a bare string. In general, when the
  converted list of content items is one text item the content is its text as a bare
  string, and when the list is empty the content is the empty string.
\<close>

theorem encoder_string_collapse:
  \<open>convert_contents_to_messages X
      [\<lparr>content_role = Some ''user'', content_parts = Some [text_part t]\<rparr>]
    = [ChatMessage ''user'' (ContentStr t) None]
   \<and> (concat (map (part_content_items X) ps) = [TextItem t]
        \<longrightarrow> convert_parts_to_content X ps = ContentStr t)
   \<and> (concat (map (part_content_items X) ps) = []
        \<longrightarrow> convert_parts_to_content X ps = ContentStr [])\<close>
proof (intro conjI impI)
  show \<open>convert_contents_to_messages X
      [\<lparr>content_role = Some ''user'', content_parts = Some [text_part t]\<rparr>]
    = [ChatMessage ''user'' (ContentStr t) None]\<close>
    by (simp add: convert_contents_to_messages_def content_messages_def opt_list_def
        single_text_content text_part_no_call text_part_no_response convert_role_def)
next
  assume \<open>concat (map (part_content_items X) ps) = [TextItem t]\<close>
  then show \<open>convert_parts_to_content X ps = ContentStr t\<close>
    unfolding convert_parts_to_content_def by simp
next
  assume \<open>concat (map (part_content_items X) ps) = []\<close>
  then show \<open>convert_parts_to_content X ps = ContentStr []\<close>
    by (simp add: convert_parts_to_content_def del: concat_eq_Nil_conv)
qed

theorem encoder_string_collapse_witness:
  \<open>convert_contents_to_messages sample_externals
      [\<lparr>content_role = Some ''user'', content_parts = Some [text_part ''Hello'']\<rparr>]
    = [ChatMessage ''user'' (ContentStr ''Hello'') None]
   \<and> concat (map (part_content_items sample_externals) [empty_part, text_part ''Hello''])
       = [TextItem ''Hello'']
   \<and> convert_parts_to_content sample_externals [empty_part, text_part ''Hello'']
       = ContentStr ''Hello''
   \<and> concat (map (part_content_items sample_externals) [empty_part]) = []
   \<and> convert_parts_to_content sample_externals [empty_part] = ContentStr []\<close>
proof -
  have a: \<open>concat (map (part_content_items sample_externals) [empty_part, text_part ''Hello''])
           = [TextItem ''Hello'']\<close>
    by (simp add: part_content_items_def text_part_def empty_part_def opt_list_def file_items_def)
  have b: \<open>concat (map (part_content_items sample_externals) [empty_part]) = []\<close>
    by (simp add: part_content_items_def empty_part_def opt_list_def file_items_def)
  show ?thesis
    using a b
      encoder_string_collapse [of sample_externals \<open>''Hello''\<close> \<open>[empty_part, text_part ''Hello'']\<close>]
      encoder_string_collapse [of sample_externals \<open>''Hello''\<close> \<open>[empty_part]\<close>]
    by simp
qed

lemma tool_messages_map:
  \<open>tool_messages X ps =
     map (\<lambda>fr. ToolMessage (fr_id fr) (json_dumps X (fr_response fr)))
       (List.map_filter part_function_response ps)\<close>
  by (induction ps) (simp_all add: tool_messages_def List.map_filter_simps split: option.splits)

text \<open>
  C6. An entry of the conversation with at least one function-result part contributes, at
  its place in the message list, exactly one tool message per function-result part, in part
  order, each with the id of the result and the JSON encoding of its response; it
  contributes no other message, whatever its other parts are.
\<close>

theorem tool_result_messages:
  assumes \<open>list_ex (\<lambda>p. part_function_response p \<noteq> None) (opt_list (content_parts c))\<close>
  shows \<open>convert_contents_to_messages X (before @ c # after) =
           convert_contents_to_messages X before
           @ map (\<lambda>fr. ToolMessage (fr_id fr) (json_dumps X (fr_response fr)))
               (List.map_filter part_function_response (opt_list (content_parts c)))
           @ convert_contents_to_messages X after\<close>
  using assms
  by (simp add: convert_contents_to_messages_def content_messages_def tool_messages_map)

theorem tool_result_messages_witness:
  \<open>list_ex (\<lambda>p. part_function_response p \<noteq> None) (opt_list (content_parts sample_result_content))
   \<and> convert_contents_to_messages sample_externals ([] @ sample_result_content # [])
       = [ToolMessage (Some ''call_1'') ''{"city": "Singapore"}'']\<close>
proof -
  have h: \<open>list_ex (\<lambda>p. part_function_response p \<noteq> None)
             (opt_list (content_parts sample_result_content))\<close>
    by (simp add: sample_result_content_def sample_result_part_def opt_list_def)
  have d: \<open>json_dumps sample_externals (JObj [(''city'', JStr ''Singapore'')])
           = ''{"city": "Singapore"}''\<close>
    by (simp add: sample_externals_def sample_dumps_def sample_documents_def)
  show ?thesis
    using h d tool_result_messages [OF h, of sample_externals \<open>[]\<close> \<open>[]\<close>]
    by (simp add: sample_result_content_def sample_result_part_def opt_list_def
        List.map_filter_simps text_part_def empty_part_def convert_contents_to_messages_def)
qed

section \<open>Properties of the function-call recovery\<close>

lemma make_recovered_call_string:
  \<open>make_recovered_call X (strip t) (JStr nm) (JObj a) = Inr (Some (recovered_call X t nm a))\<close>
  by (simp add: make_recovered_call_def from_function_call_def set_call_id_def recovered_call_def
      synth_call_id_def empty_part_def)

lemma dict_or_empty_object: \<open>dict_or_empty ps = JObj (object_or_empty ps)\<close>
  by (cases ps) (simp_all add: dict_or_empty_def is_dict_def object_or_empty_def)

text \<open>
  The recovery on a text whose decoded object names the function by a string. It returns
  absent when conversion is not allowed, when the trimmed
  text does not both start with \<open>{\<close> and end with \<open>}\<close>, when the trimmed text does not
  decode, and when the decoded object has none of the three shapes. Otherwise the first
  matching shape, in the order 1, 2, 3, gives a function-call part with the name found, with
  id \<open>call_\<close> followed by the hash of the trimmed text modulo 10000, and with these
  arguments: for shapes 1 and 2 the \<open>parameters\<close> value when it is an object and \<open>{}\<close>
  otherwise; for shape 3 \<open>{}\<close> when \<open>parameters\<close> is missing, the \<open>parameters\<close> value when
  it is an object, and for a string value its decoding, with \<open>{}\<close> when it does not decode.
  The name is a string throughout.
\<close>

lemma recovery_shapes:
  \<open>try_parse_function_call_from_text X t False = Inr None
   \<and> (\<not> (startswith (strip t) ''{'' \<and> endswith (strip t) ''}'')
        \<longrightarrow> try_parse_function_call_from_text X t allow = Inr None)
   \<and> (json_loads X (strip t) = None
        \<longrightarrow> try_parse_function_call_from_text X t allow = Inr None)
   \<and> (startswith (strip t) ''{'' \<and> endswith (strip t) ''}'' \<and> json_loads X (strip t) = Some (JObj d)
        \<longrightarrow>
          (shape1 d \<and> map_of d ''function'' = Some (JStr nm) \<and> map_of d ''parameters'' = Some ps
             \<longrightarrow> try_parse_function_call_from_text X t True
                   = Inr (Some (recovered_call X t nm (object_or_empty ps))))
        \<and> (\<not> shape1 d \<and> map_of d ''name'' = Some (JStr nm) \<and> map_of d ''parameters'' = Some ps
             \<longrightarrow> try_parse_function_call_from_text X t True
                   = Inr (Some (recovered_call X t nm (object_or_empty ps))))
        \<and> (\<not> shape1 d \<and> \<not> shape2 d \<and> map_of d ''function'' = Some (JObj fd)
            \<and> map_of fd ''name'' = Some (JStr nm)
             \<longrightarrow>
               (map_of fd ''parameters'' = None
                  \<longrightarrow> try_parse_function_call_from_text X t True
                        = Inr (Some (recovered_call X t nm [])))
             \<and> (map_of fd ''parameters'' = Some (JObj a)
                  \<longrightarrow> try_parse_function_call_from_text X t True
                        = Inr (Some (recovered_call X t nm a)))
             \<and> (map_of fd ''parameters'' = Some (JStr s) \<and> json_loads X s = None
                  \<longrightarrow> try_parse_function_call_from_text X t True
                        = Inr (Some (recovered_call X t nm [])))
             \<and> (map_of fd ''parameters'' = Some (JStr s) \<and> json_loads X s = Some (JObj a)
                  \<longrightarrow> try_parse_function_call_from_text X t True
                        = Inr (Some (recovered_call X t nm a))))
        \<and> (\<not> shape1 d \<and> \<not> shape2 d \<and> \<not> shape3 d
             \<longrightarrow> try_parse_function_call_from_text X t True = Inr None))\<close>
proof (intro conjI impI; (elim conjE)?)
  show \<open>try_parse_function_call_from_text X t False = Inr None\<close>
    by (simp add: try_parse_function_call_from_text_def Let_def)
next
  assume \<open>\<not> (startswith (strip t) ''{'' \<and> endswith (strip t) ''}'')\<close>
  then show \<open>try_parse_function_call_from_text X t allow = Inr None\<close>
    by (simp add: try_parse_function_call_from_text_def Let_def)
next
  assume \<open>json_loads X (strip t) = None\<close>
  then show \<open>try_parse_function_call_from_text X t allow = Inr None\<close>
    by (simp add: try_parse_function_call_from_text_def Let_def)
next
  assume b: \<open>startswith (strip t) ''{''\<close> \<open>endswith (strip t) ''}''\<close>
    \<open>json_loads X (strip t) = Some (JObj d)\<close>
    and s: \<open>shape1 d\<close> \<open>map_of d ''function'' = Some (JStr nm)\<close> \<open>map_of d ''parameters'' = Some ps\<close>
  then show \<open>try_parse_function_call_from_text X t True
                   = Inr (Some (recovered_call X t nm (object_or_empty ps)))\<close>
    by (simp add: try_parse_function_call_from_text_def Let_def shape1_def make_recovered_call_string
        dict_or_empty_object)
next
  assume b: \<open>startswith (strip t) ''{''\<close> \<open>endswith (strip t) ''}''\<close>
    \<open>json_loads X (strip t) = Some (JObj d)\<close>
    and s: \<open>\<not> shape1 d\<close> \<open>map_of d ''name'' = Some (JStr nm)\<close> \<open>map_of d ''parameters'' = Some ps\<close>
  then show \<open>try_parse_function_call_from_text X t True
                   = Inr (Some (recovered_call X t nm (object_or_empty ps)))\<close>
    by (simp add: try_parse_function_call_from_text_def Let_def shape1_def make_recovered_call_string
        dict_or_empty_object)
next
  assume b: \<open>startswith (strip t) ''{''\<close> \<open>endswith (strip t) ''}''\<close>
    \<open>json_loads X (strip t) = Some (JObj d)\<close>
    and s: \<open>\<not> shape1 d\<close> \<open>\<not> shape2 d\<close> \<open>map_of d ''function'' = Some (JObj fd)\<close>
      \<open>map_of fd ''name'' = Some (JStr nm)\<close>
    and p: \<open>map_of fd ''parameters'' = None\<close>
  then show \<open>try_parse_function_call_from_text X t True = Inr (Some (recovered_call X t nm []))\<close>
    by (auto simp add: try_parse_function_call_from_text_def Let_def shape1_def shape2_def
        nested_args_def make_recovered_call_string)
next
  assume b: \<open>startswith (strip t) ''{''\<close> \<open>endswith (strip t) ''}''\<close>
    \<open>json_loads X (strip t) = Some (JObj d)\<close>
    and s: \<open>\<not> shape1 d\<close> \<open>\<not> shape2 d\<close> \<open>map_of d ''function'' = Some (JObj fd)\<close>
      \<open>map_of fd ''name'' = Some (JStr nm)\<close>
    and p: \<open>map_of fd ''parameters'' = Some (JObj a)\<close>
  then show \<open>try_parse_function_call_from_text X t True = Inr (Some (recovered_call X t nm a))\<close>
    by (auto simp add: try_parse_function_call_from_text_def Let_def shape1_def shape2_def
        nested_args_def make_recovered_call_string)
next
  assume b: \<open>startswith (strip t) ''{''\<close> \<open>endswith (strip t) ''}''\<close>
    \<open>json_loads X (strip t) = Some (JObj d)\<close>
    and s: \<open>\<not> shape1 d\<close> \<open>\<not> shape2 d\<close> \<open>map_of d ''function'' = Some (JObj fd)\<close>
      \<open>map_of fd ''name'' = Some (JStr nm)\<close>
    and p: \<open>map_of fd ''parameters'' = Some (JStr s)\<close> \<open>json_loads X s = None\<close>
  then show \<open>try_parse_function_call_from_text X t True = Inr (Some (recovered_call X t nm []))\<close>
    by (auto simp add: try_parse_function_call_from_text_def Let_def shape1_def shape2_def
        nested_args_def make_recovered_call_string)
next
  assume b: \<open>startswith (strip t) ''{''\<close> \<open>endswith (strip t) ''}''\<close>
    \<open>json_loads X (strip t) = Some (JObj d)\<close>
    and s: \<open>\<not> shape1 d\<close> \<open>\<not> shape2 d\<close> \<open>map_of d ''function'' = Some (JObj fd)\<close>
      \<open>map_of fd ''name'' = Some (JStr nm)\<close>
    and p: \<open>map_of fd ''parameters'' = Some (JStr s)\<close> \<open>json_loads X s = Some (JObj a)\<close>
  then show \<open>try_parse_function_call_from_text X t True = Inr (Some (recovered_call X t nm a))\<close>
    by (auto simp add: try_parse_function_call_from_text_def Let_def shape1_def shape2_def
        nested_args_def make_recovered_call_string)
next
  assume b: \<open>startswith (strip t) ''{''\<close> \<open>endswith (strip t) ''}''\<close>
    \<open>json_loads X (strip t) = Some (JObj d)\<close>
    and s: \<open>\<not> shape1 d\<close> \<open>\<not> shape2 d\<close> \<open>\<not> shape3 d\<close>
  then show \<open>try_parse_function_call_from_text X t True = Inr None\<close>
    by (auto simp add: try_parse_function_call_from_text_def Let_def shape1_def shape2_def shape3_def
        split: option.splits json.splits)
qed

lemmas sample_texts =
  text_name_shape_def text_type_shape_def text_nested_shape_def text_nested_string_def
  text_nested_null_def text_no_shape_def

lemmas string_eval = strip_def isspace_def whitespace_def startswith_def endswith_def

lemmas sample_eval = sample_externals_def sample_loads_def sample_documents_def

lemma suffix_one: \<open>suffix [c] s = (s \<noteq> [] \<and> last s = c)\<close>
  by (cases s rule: rev_cases) auto

lemma strip_texts:
  \<open>strip text_name_shape = text_name_shape\<close>
  \<open>strip text_type_shape = text_type_shape\<close>
  \<open>strip text_nested_shape = text_nested_shape\<close>
  \<open>strip text_nested_string = text_nested_string\<close>
  \<open>strip text_nested_null = text_nested_null\<close>
  \<open>strip text_no_shape = text_no_shape\<close>
  by (simp_all add: sample_texts strip_def isspace_def whitespace_def)

lemma bounded_texts:
  \<open>startswith text_name_shape ''{'' \<and> endswith text_name_shape ''}''\<close>
  \<open>startswith text_type_shape ''{'' \<and> endswith text_type_shape ''}''\<close>
  \<open>startswith text_nested_shape ''{'' \<and> endswith text_nested_shape ''}''\<close>
  \<open>startswith text_nested_string ''{'' \<and> endswith text_nested_string ''}''\<close>
  \<open>startswith text_nested_null ''{'' \<and> endswith text_nested_null ''}''\<close>
  \<open>startswith text_no_shape ''{'' \<and> endswith text_no_shape ''}''\<close>
  by (simp_all add: sample_texts startswith_def endswith_def suffix_one)

lemma loads_texts:
  \<open>json_loads sample_externals text_name_shape =
     Some (JObj [(''name'', JStr ''get_weather''), (''parameters'', JObj [(''city'', JStr ''Singapore'')])])\<close>
  \<open>json_loads sample_externals text_type_shape =
     Some (JObj [(''type'', JStr ''function''), (''function'', JStr ''get_weather''),
                 (''parameters'', JObj [(''city'', JStr ''Singapore'')])])\<close>
  \<open>json_loads sample_externals text_nested_shape =
     Some (JObj [(''function'', JObj [(''name'', JStr ''get_weather''),
                                      (''parameters'', JObj [(''city'', JStr ''Singapore'')])])])\<close>
  \<open>json_loads sample_externals text_nested_string =
     Some (JObj [(''function'', JObj [(''name'', JStr ''get_weather''), (''parameters'', JStr ''{}'')])])\<close>
  \<open>json_loads sample_externals text_nested_null =
     Some (JObj [(''function'', JObj [(''name'', JStr ''get_weather''), (''parameters'', JNull)])])\<close>
  \<open>json_loads sample_externals text_no_shape = Some (JObj [(''city'', JStr ''Singapore'')])\<close>
  \<open>json_loads sample_externals ''{}'' = Some (JObj [])\<close>
  by (simp_all add: sample_texts sample_eval)

lemma hash_texts:
  \<open>recovered_call sample_externals text_name_shape nm a = call_part ''call_60'' nm (Some a)\<close>
  \<open>recovered_call sample_externals text_type_shape nm a = call_part ''call_84'' nm (Some a)\<close>
  \<open>recovered_call sample_externals text_nested_shape nm a = call_part ''call_74'' nm (Some a)\<close>
  \<open>recovered_call sample_externals text_nested_string nm a = call_part ''call_57'' nm (Some a)\<close>
  by (simp_all add: recovered_call_def call_part_def strip_texts)
     (simp_all add: sample_texts sample_externals_def str_nat.simps digit_char_def)

lemma recovery_shapes_witness:
  \<open>try_parse_function_call_from_text sample_externals text_name_shape True
     = Inr (Some (call_part ''call_60'' ''get_weather'' (Some [(''city'', JStr ''Singapore'')])))
   \<and> try_parse_function_call_from_text sample_externals text_type_shape True
     = Inr (Some (call_part ''call_84'' ''get_weather'' (Some [(''city'', JStr ''Singapore'')])))
   \<and> try_parse_function_call_from_text sample_externals text_nested_shape True
     = Inr (Some (call_part ''call_74'' ''get_weather'' (Some [(''city'', JStr ''Singapore'')])))
   \<and> try_parse_function_call_from_text sample_externals text_nested_string True
     = Inr (Some (call_part ''call_57'' ''get_weather'' (Some [])))
   \<and> try_parse_function_call_from_text sample_externals text_no_shape True = Inr None
   \<and> try_parse_function_call_from_text sample_externals ''It is sunny.'' True = Inr None
   \<and> try_parse_function_call_from_text sample_externals ''{It is sunny}'' True = Inr None
   \<and> try_parse_function_call_from_text sample_externals text_name_shape False = Inr None\<close>
proof (intro conjI)
  show \<open>try_parse_function_call_from_text sample_externals text_name_shape True
     = Inr (Some (call_part ''call_60'' ''get_weather'' (Some [(''city'', JStr ''Singapore'')])))\<close>
    using recovery_shapes [where X = sample_externals and t = text_name_shape
        and d = \<open>[(''name'', JStr ''get_weather''), (''parameters'', JObj [(''city'', JStr ''Singapore'')])]\<close>
        and nm = \<open>''get_weather''\<close> and ps = \<open>JObj [(''city'', JStr ''Singapore'')]\<close>]
    by (simp add: strip_texts bounded_texts loads_texts hash_texts shape1_def object_or_empty_def)
next
  show \<open>try_parse_function_call_from_text sample_externals text_type_shape True
     = Inr (Some (call_part ''call_84'' ''get_weather'' (Some [(''city'', JStr ''Singapore'')])))\<close>
    using recovery_shapes [where X = sample_externals and t = text_type_shape
        and d = \<open>[(''type'', JStr ''function''), (''function'', JStr ''get_weather''),
                 (''parameters'', JObj [(''city'', JStr ''Singapore'')])]\<close>
        and nm = \<open>''get_weather''\<close> and ps = \<open>JObj [(''city'', JStr ''Singapore'')]\<close>]
    by (simp add: strip_texts bounded_texts loads_texts hash_texts shape1_def object_or_empty_def)
next
  show \<open>try_parse_function_call_from_text sample_externals text_nested_shape True
     = Inr (Some (call_part ''call_74'' ''get_weather'' (Some [(''city'', JStr ''Singapore'')])))\<close>
    using recovery_shapes [where X = sample_externals and t = text_nested_shape
        and d = \<open>[(''function'', JObj [(''name'', JStr ''get_weather''),
                                      (''parameters'', JObj [(''city'', JStr ''Singapore'')])])]\<close>
        and nm = \<open>''get_weather''\<close> and a = \<open>[(''city'', JStr ''Singapore'')]\<close>
        and fd = \<open>[(''name'', JStr ''get_weather''), (''parameters'', JObj [(''city'', JStr ''Singapore'')])]\<close>]
    by (simp add: strip_texts bounded_texts loads_texts hash_texts shape1_def shape2_def)
next
  show \<open>try_parse_function_call_from_text sample_externals text_nested_string True
     = Inr (Some (call_part ''call_57'' ''get_weather'' (Some [])))\<close>
    using recovery_shapes [where X = sample_externals and t = text_nested_string
        and d = \<open>[(''function'', JObj [(''name'', JStr ''get_weather''), (''parameters'', JStr ''{}'')])]\<close>
        and nm = \<open>''get_weather''\<close> and a = \<open>[]\<close> and s = \<open>''{}''\<close>
        and fd = \<open>[(''name'', JStr ''get_weather''), (''parameters'', JStr ''{}'')]\<close>]
    by (simp add: strip_texts bounded_texts loads_texts hash_texts shape1_def shape2_def)
next
  show \<open>try_parse_function_call_from_text sample_externals text_no_shape True = Inr None\<close>
    using recovery_shapes [where X = sample_externals and t = text_no_shape
        and d = \<open>[(''city'', JStr ''Singapore'')]\<close>]
    by (simp add: strip_texts bounded_texts loads_texts shape1_def shape2_def shape3_def)
next
  show \<open>try_parse_function_call_from_text sample_externals ''It is sunny.'' True = Inr None\<close>
    using recovery_shapes [where X = sample_externals and t = \<open>''It is sunny.''\<close> and allow = True]
    by (simp add: string_eval)
next
  show \<open>try_parse_function_call_from_text sample_externals ''{It is sunny}'' True = Inr None\<close>
    using recovery_shapes [where X = sample_externals and t = \<open>''{It is sunny}''\<close> and allow = True]
    by (simp add: string_eval sample_eval)
next
  show \<open>try_parse_function_call_from_text sample_externals text_name_shape False = Inr None\<close>
    using recovery_shapes [where X = sample_externals and t = text_name_shape]
    by simp
qed

text \<open>
  C2. The specification asks for the arguments \<open>{}\<close> whenever \<open>parameters\<close> is not an object.
  The first two shapes test the value and do so. The nested shape reads
  \<open>func_data.get('parameters', {})\<close> and decodes a string, but a value that is present and
  neither an object nor a string is handed on as it is. On the text
  \<open>{"function": {"name": "get_weather", "parameters": null}}\<close> the value is \<open>null\<close>, and
  the call that is returned carries no arguments rather than \<open>{}\<close>.
\<close>

theorem recovery_null_parameters:
  \<open>try_parse_function_call_from_text sample_externals text_nested_null True
     = Inr (Some (call_part ''call_57'' ''get_weather'' None))
   \<and> try_parse_function_call_from_text sample_externals text_nested_null True
     \<noteq> Inr (Some (call_part ''call_57'' ''get_weather'' (Some [])))\<close>
proof -
  have \<open>try_parse_function_call_from_text sample_externals text_nested_null True
     = Inr (Some (call_part ''call_57'' ''get_weather'' None))\<close>
    by (simp add: try_parse_function_call_from_text_def Let_def strip_texts bounded_texts
        loads_texts nested_args_def make_recovered_call_def from_function_call_def
        set_call_id_def synth_call_id_def call_part_def empty_part_def)
       (simp add: sample_texts sample_externals_def str_nat.simps digit_char_def)
  then show ?thesis by (simp add: call_part_def empty_part_def)
qed

section \<open>Properties of the Request Orchestrator\<close>

lemma add_generation_params_tools:
  \<open>ap_tools (add_generation_params p c) = ap_tools p\<close>
  \<open>ap_tool_choice (add_generation_params p c) = ap_tool_choice p\<close>
  \<open>ap_messages (add_generation_params p c) = ap_messages p\<close>
  by (simp_all add: add_generation_params_def)

lemma convert_tools_nonempty:
  \<open>convert_tools llm_request = Some ts \<Longrightarrow> ts \<noteq> []\<close>
  by (auto simp add: convert_tools_def Let_def split: if_splits)

text \<open>
  The gate on a request that is dispatched. The tool conversion gives a tool list only when
  the list has a tool definition. Whenever the API parameters are built,
  they carry the tool list and \<open>tool_choice = "auto"\<close> if and only if the tool conversion
  gave at least one tool definition, no message of the request has role \<open>tool\<close>, and the
  lower-cased content of the last message contains one of the five keywords; the tool list
  is then the converted one, and otherwise the parameters carry neither key.
\<close>

lemma tool_attachment_gate:
  assumes \<open>build_api_params X model llm_request stream = Inr p\<close>
  shows \<open>ap_messages p = request_messages X llm_request
    \<and> ((ap_tools p \<noteq> None \<and> ap_tool_choice p = Some ''auto'') =
        (convert_tools llm_request \<noteq> None
         \<and> \<not> list_ex (\<lambda>m. message_role m = ''tool'') (request_messages X llm_request)
         \<and> (case last_content (request_messages X llm_request) of
               ContentStr s \<Rightarrow>
                 list_ex (\<lambda>keyword. contains keyword (lower s))
                   [''weather'', ''time'', ''temperature'', ''forecast'', ''clock'']
             | ContentItems items \<Rightarrow> False)))
    \<and> (ap_tools p \<noteq> None \<longrightarrow> ap_tools p = convert_tools llm_request)
    \<and> (\<not> (ap_tools p \<noteq> None \<and> ap_tool_choice p = Some ''auto'')
         \<longrightarrow> ap_tools p = None \<and> ap_tool_choice p = None)\<close>
  using assms
  by (auto simp add: build_api_params_def attach_tools_def bind_exn_def lower_content_def
      has_tool_message_def tool_keywords_def add_generation_params_tools
      split: option.splits if_splits message_content.splits sum.splits)

lemma sample_append_user:
  \<open>maybe_append_user_content sample_externals
      [\<lparr>content_role = Some ''user'', content_parts = ps\<rparr>]
    = [\<lparr>content_role = Some ''user'', content_parts = ps\<rparr>]\<close>
  by (simp add: sample_externals_def sample_append_def)

lemma single_user_text_message:
  \<open>convert_contents_to_messages X
      [\<lparr>content_role = Some ''user'', content_parts = Some [text_part t]\<rparr>]
    = [ChatMessage ''user'' (ContentStr t) None]\<close>
  by (simp add: convert_contents_to_messages_def content_messages_def opt_list_def
      single_text_content text_part_no_call text_part_no_response convert_role_def)

lemma weather_messages:
  \<open>request_messages sample_externals sample_weather_request
     = [ChatMessage ''user'' (ContentStr ''What's the weather in Singapore?'') None]\<close>
  by (simp add: request_messages_def sample_weather_request_def sample_config_def
      sample_append_user single_user_text_message opt_list_def)

lemma sample_tools_converted:
  \<open>convert_tools sample_weather_request \<noteq> None\<close>
  \<open>convert_tools sample_picture_request \<noteq> None\<close>
  by (simp_all add: convert_tools_def sample_weather_request_def sample_picture_request_def
      sample_config_def opt_list_def)

lemma weather_keyword:
  \<open>list_ex (\<lambda>keyword. contains keyword (lower ''What's the weather in Singapore?''))
     [''weather'', ''time'', ''temperature'', ''forecast'', ''clock'']\<close>
  by (simp add: lower_def lower_char_def upper_chars_def lower_chars_def contains_def sublist_code)

lemma weather_params:
  \<open>build_api_params sample_externals ''meta-llama/Llama-3.2-1B-Instruct'' sample_weather_request False
    = Inr (add_generation_params
             \<lparr>ap_model = ''meta-llama/Llama-3.2-1B-Instruct'',
              ap_messages = [ChatMessage ''user'' (ContentStr ''What's the weather in Singapore?'') None],
              ap_stream = False, ap_tools = convert_tools sample_weather_request,
              ap_tool_choice = Some ''auto'', ap_temperature = None, ap_max_tokens = None,
              ap_top_p = None, ap_stop = None, ap_presence_penalty = None,
              ap_frequency_penalty = None\<rparr> sample_config)\<close>
proof (cases \<open>convert_tools sample_weather_request\<close>)
  case None
  then show ?thesis using sample_tools_converted(1) by simp
next
  case (Some ts)
  have c: \<open>req_config sample_weather_request = sample_config\<close>
    by (simp add: sample_weather_request_def)
  show ?thesis
    using weather_keyword
    by (simp add: build_api_params_def attach_tools_def bind_exn_def weather_messages
        has_tool_message_def last_content_def lower_content_def tool_keywords_def Some c)
qed

lemma tool_attachment_gate_witness:
  \<open>build_api_params sample_externals ''meta-llama/Llama-3.2-1B-Instruct'' sample_weather_request False
    = Inr (add_generation_params
             \<lparr>ap_model = ''meta-llama/Llama-3.2-1B-Instruct'',
              ap_messages = [ChatMessage ''user'' (ContentStr ''What's the weather in Singapore?'') None],
              ap_stream = False, ap_tools = convert_tools sample_weather_request,
              ap_tool_choice = Some ''auto'', ap_temperature = None, ap_max_tokens = None,
              ap_top_p = None, ap_stop = None, ap_presence_penalty = None,
              ap_frequency_penalty = None\<rparr> sample_config)
   \<and> convert_tools sample_weather_request \<noteq> None
   \<and> \<not> list_ex (\<lambda>m. message_role m = ''tool'')
          (request_messages sample_externals sample_weather_request)
   \<and> last_content (request_messages sample_externals sample_weather_request)
       = ContentStr ''What's the weather in Singapore?''
   \<and> list_ex (\<lambda>keyword. contains keyword (lower ''What's the weather in Singapore?''))
        [''weather'', ''time'', ''temperature'', ''forecast'', ''clock'']\<close>
  using tool_attachment_gate [OF weather_params] weather_params sample_tools_converted(1)
    weather_keyword
  by (simp add: weather_messages last_content_def)

lemma weather_picture_messages:
  \<open>request_messages sample_externals sample_weather_picture_request
     = [ChatMessage ''user''
          (ContentItems [TextItem ''What is the weather in this picture?'',
                         ImageUrlItem ''data:image/png;base64,AQID'']) None]\<close>
proof -
  have e: \<open>b64encode sample_externals [Suc 0, 2, 3] = ''AQID''\<close>
    by (simp add: sample_externals_def)
  have m: \<open>request_messages sample_externals sample_weather_picture_request
     = convert_contents_to_messages sample_externals (req_contents sample_weather_picture_request)\<close>
    by (simp add: request_messages_def sample_weather_picture_request_def sample_config_def
        sample_append_user opt_list_def)
  show ?thesis
    unfolding m
    by (simp add: sample_weather_picture_request_def opt_list_def convert_contents_to_messages_def
        content_messages_def convert_parts_to_content_def part_content_items_def
        inline_items_def file_items_def text_part_def empty_part_def convert_role_def
        tool_call_entries_def startswith_def e)
qed

lemma weather_picture_tools:
  \<open>map_option length (convert_tools sample_weather_picture_request) = Some 1\<close>
  by (simp add: convert_tools_def sample_weather_picture_request_def sample_config_def opt_list_def)

lemma weather_picture_keyword:
  \<open>list_ex (\<lambda>keyword. contains keyword (lower ''What is the weather in this picture?''))
     tool_keywords\<close>
  by (simp add: tool_keywords_def lower_def lower_char_def upper_chars_def lower_chars_def
      contains_def sublist_code)

text \<open>
  C3. The attachment rule holds for every request that is dispatched, but not every
  request is. Take the question \<open>What is the weather in this picture?\<close> with the picture
  inline and one declared tool: the tool conversion gives one tool definition, no message
  has role \<open>tool\<close>, and the text of the last message contains the keyword \<open>weather\<close>,
  so the specification asks for the tool list and \<open>tool_choice = "auto"\<close> in the outgoing
  parameters. The content of the last message is a list of content items, however, and the
  gate calls \<open>lower\<close> on it: the call raises, no parameters are built, and the request is
  answered with one \<open>TRANSFORMERS_API_ERROR\<close> instead of being sent with the tools.
\<close>

theorem weather_picture_not_dispatched:
  \<open>map_option length (convert_tools sample_weather_picture_request) = Some 1
   \<and> \<not> list_ex (\<lambda>m. message_role m = ''tool'')
          (request_messages sample_externals sample_weather_picture_request)
   \<and> last_content (request_messages sample_externals sample_weather_picture_request)
       = ContentItems [TextItem ''What is the weather in this picture?'',
                       ImageUrlItem ''data:image/png;base64,AQID'']
   \<and> list_ex (\<lambda>keyword. contains keyword (lower ''What is the weather in this picture?''))
        tool_keywords
   \<and> build_api_params sample_externals ''meta-llama/Llama-3.2-1B-Instruct''
        sample_weather_picture_request False = Inl AttributeError
   \<and> generate_content_async sample_externals sample_transport
        ''meta-llama/Llama-3.2-1B-Instruct'' sample_weather_picture_request False
       = [error_response ''TRANSFORMERS_API_ERROR'' (StrOf AttributeError)]\<close>
proof -
  obtain ts where ts: \<open>convert_tools sample_weather_picture_request = Some ts\<close>
    using weather_picture_tools by (cases \<open>convert_tools sample_weather_picture_request\<close>) simp_all
  have b: \<open>build_api_params sample_externals ''meta-llama/Llama-3.2-1B-Instruct''
        sample_weather_picture_request False = Inl AttributeError\<close>
    by (simp add: build_api_params_def attach_tools_def bind_exn_def weather_picture_messages
        has_tool_message_def last_content_def lower_content_def ts)
  show ?thesis
    using weather_picture_tools weather_picture_keyword b
    by (simp add: weather_picture_messages last_content_def generate_content_async_def)
qed

text \<open>
  C10. When tool definitions exist, no message has role \<open>tool\<close> and the content of the last
  message is a list of content items, not a string, the keyword gate calls \<open>lower\<close> on the
  list and raises: no parameters are built, nothing is dispatched, and the only response is
  one \<open>TRANSFORMERS_API_ERROR\<close>. A user entry with a text and an inline picture is such an
  input.
\<close>

theorem keyword_gate_raises:
  assumes \<open>convert_tools llm_request \<noteq> None\<close>
    and \<open>\<not> list_ex (\<lambda>m. message_role m = ''tool'') (request_messages X llm_request)\<close>
    and \<open>last_content (request_messages X llm_request) = ContentItems items\<close>
  shows \<open>build_api_params X model llm_request stream = Inl AttributeError
    \<and> generate_content_async X T model llm_request stream
        = [error_response ''TRANSFORMERS_API_ERROR'' (StrOf AttributeError)]\<close>
proof -
  obtain ts where ts: \<open>convert_tools llm_request = Some ts\<close>
    using assms(1) by auto
  have \<open>build_api_params X model llm_request stream = Inl AttributeError\<close>
    using assms(2,3)
    by (simp add: build_api_params_def attach_tools_def bind_exn_def lower_content_def
        has_tool_message_def ts)
  then show ?thesis
    by (simp add: generate_content_async_def)
qed

lemma picture_messages:
  \<open>request_messages sample_externals sample_picture_request
     = [ChatMessage ''user''
          (ContentItems [TextItem ''What is in this picture?'',
                         ImageUrlItem ''data:image/png;base64,AQID'']) None]\<close>
proof -
  have e: \<open>b64encode sample_externals [Suc 0, 2, 3] = ''AQID''\<close>
    by (simp add: sample_externals_def)
  have m: \<open>request_messages sample_externals sample_picture_request
     = convert_contents_to_messages sample_externals (req_contents sample_picture_request)\<close>
    by (simp add: request_messages_def sample_picture_request_def sample_config_def
        sample_append_user opt_list_def)
  show ?thesis
    unfolding m
    by (simp add: sample_picture_request_def opt_list_def convert_contents_to_messages_def
        content_messages_def convert_parts_to_content_def part_content_items_def
        inline_items_def file_items_def text_part_def empty_part_def convert_role_def
        tool_call_entries_def startswith_def e)
qed

theorem keyword_gate_raises_witness:
  \<open>convert_tools sample_picture_request \<noteq> None
   \<and> \<not> list_ex (\<lambda>m. message_role m = ''tool'')
          (request_messages sample_externals sample_picture_request)
   \<and> last_content (request_messages sample_externals sample_picture_request)
       = ContentItems [TextItem ''What is in this picture?'',
                       ImageUrlItem ''data:image/png;base64,AQID'']
   \<and> generate_content_async sample_externals sample_transport
         ''meta-llama/Llama-3.2-1B-Instruct'' sample_picture_request False
       = [error_response ''TRANSFORMERS_API_ERROR'' (StrOf AttributeError)]\<close>
proof -
  have b: \<open>\<not> list_ex (\<lambda>m. message_role m = ''tool'')
          (request_messages sample_externals sample_picture_request)\<close>
    by (simp add: picture_messages)
  have c: \<open>last_content (request_messages sample_externals sample_picture_request)
       = ContentItems [TextItem ''What is in this picture?'',
                       ImageUrlItem ''data:image/png;base64,AQID'']\<close>
    by (simp add: picture_messages last_content_def)
  show ?thesis
    using b c sample_tools_converted(2)
      keyword_gate_raises [OF sample_tools_converted(2) b c, of \<open>''meta-llama/Llama-3.2-1B-Instruct''\<close>
        False sample_transport]
    by simp
qed

section \<open>Properties of the Response Decoder\<close>

lemma bind_exn_InrE:
  assumes \<open>bind_exn m f = Inr r\<close>
  obtains v where \<open>m = Inr v\<close> and \<open>f v = Inr r\<close>
  using assms by (cases m) (simp_all add: bind_exn_def)

lemma bind_exn_simps [simp]:
  \<open>bind_exn (Inr v) f = f v\<close>
  \<open>bind_exn (Inl e) f = Inl e\<close>
  by (simp_all add: bind_exn_def)

lemma response_fields [simp]:
  \<open>resp_error_code (final_response ps fr) = None\<close>
  \<open>resp_finish_reason (final_response ps fr) = Some fr\<close>
  \<open>resp_error_code (error_response c m) = Some c\<close>
  \<open>resp_finish_reason (error_response c m) = None\<close>
  \<open>resp_partial (final_response ps fr) = None\<close>
  \<open>resp_partial (partial_response t) = Some True\<close>
  \<open>resp_finish_reason (partial_response t) = None\<close>
  by (simp_all add: final_response_def error_response_def partial_response_def)

lemma convert_body_stop:
  assumes \<open>convert_raw_response_body X d h = Inr r\<close> and \<open>resp_error_code r = None\<close>
  shows \<open>resp_finish_reason r = Some STOP\<close>
  using assms
  unfolding convert_raw_response_body_def
  by (auto elim!: bind_exn_InrE split: if_splits)

lemma parse_streaming_stop:
  assumes \<open>parse_raw_streaming_response X txt h = Inr r\<close> and \<open>resp_error_code r = None\<close>
  shows \<open>resp_finish_reason r = Some STOP\<close>
  using assms
  unfolding parse_raw_streaming_response_def
  by (auto elim!: bind_exn_InrE split: if_splits option.splits)

text \<open>
  C9. A response of the non-streaming decoders that is not an error carries the finish
  reason STOP, whatever the payload says: for the decoder of the JSON payload, for the
  decoder of a body in server-sent-event form, and for the raw HTTP path that chooses
  between them. A payload whose choice has finish reason \<open>length\<close> is reported as STOP.
\<close>

theorem non_streaming_always_stop:
  \<open>(resp_error_code (convert_raw_response_to_llm_response X d h) = None
      \<longrightarrow> resp_finish_reason (convert_raw_response_to_llm_response X d h) = Some STOP)
   \<and> (parse_raw_streaming_response X txt h = Inr r \<and> resp_error_code r = None
      \<longrightarrow> resp_finish_reason r = Some STOP)
   \<and> (resp_error_code (decode_http_outcome X messages outcome) = None
      \<longrightarrow> resp_finish_reason (decode_http_outcome X messages outcome) = Some STOP)\<close>
proof (intro conjI impI)
  assume \<open>resp_error_code (convert_raw_response_to_llm_response X d h) = None\<close>
  then show \<open>resp_finish_reason (convert_raw_response_to_llm_response X d h) = Some STOP\<close>
    by (auto simp add: convert_raw_response_to_llm_response_def convert_body_stop
        split: sum.splits)
next
  assume \<open>parse_raw_streaming_response X txt h = Inr r \<and> resp_error_code r = None\<close>
  then show \<open>resp_finish_reason r = Some STOP\<close>
    by (auto intro: parse_streaming_stop)
next
  assume \<open>resp_error_code (decode_http_outcome X messages outcome) = None\<close>
  then show \<open>resp_finish_reason (decode_http_outcome X messages outcome) = Some STOP\<close>
    by (auto simp add: decode_http_outcome_def Let_def convert_raw_response_to_llm_response_def
        convert_body_stop parse_streaming_stop
        split: http_outcome.splits if_splits sum.splits option.splits)
qed

lemma strip_hi: \<open>strip ''Hi'' = ''Hi''\<close>
  by (simp add: strip_def isspace_def whitespace_def)

lemma length_payload_decoded:
  \<open>convert_raw_response_to_llm_response sample_externals length_payload False
     = final_response [text_part ''Hi''] STOP\<close>
  by (simp add: convert_raw_response_to_llm_response_def convert_raw_response_body_def
      length_payload_def content_parts_of_def try_parse_value_def
      try_parse_function_call_from_text_def Let_def strip_hi startswith_def text_part_def)

lemma hello_lines: \<open>split_on newline hello_body = [hello_body]\<close>
  by (simp add: hello_body_def newline_def)

lemma hello_strip: \<open>strip hello_body = hello_body\<close>
  by (simp add: hello_body_def strip_def isspace_def whitespace_def)

lemma hello_frame:
  \<open>line_content sample_externals hello_body = Inr (Some (JStr ''Hello''))\<close>
  unfolding line_content_def hello_strip Let_def
  by (simp add: hello_body_def startswith_def frame_content_def sample_eval)

lemma hello_parsed:
  \<open>parse_raw_streaming_response sample_externals hello_body h
     = Inr (final_response [text_part ''Hello''] STOP)\<close>
  by (simp add: parse_raw_streaming_response_def hello_lines hello_frame
      try_parse_function_call_from_text_def Let_def strip_def isspace_def whitespace_def
      startswith_def)

lemma hello_decoded:
  \<open>decode_http_outcome sample_externals messages (HttpResponse True hello_body)
     = final_response [text_part ''Hello''] STOP\<close>
proof -
  have p: \<open>startswith hello_body ''data:''\<close>
    by (simp add: hello_body_def startswith_def)
  show ?thesis
    by (simp add: decode_http_outcome_def Let_def hello_strip p hello_parsed)
qed

lemma length_body_decoded:
  \<open>decode_http_outcome sample_externals messages (HttpResponse True length_body)
     = final_response [text_part ''Hi''] STOP\<close>
proof -
  have s: \<open>strip length_body = length_body\<close>
    by (simp add: length_body_def strip_def isspace_def whitespace_def)
  have l: \<open>json_loads sample_externals length_body = Some length_payload\<close>
    by (simp add: length_body_def length_payload_def sample_eval)
  have d: \<open>convert_raw_response_to_llm_response sample_externals length_payload h
     = final_response [text_part ''Hi''] STOP\<close> for h
    by (simp add: convert_raw_response_to_llm_response_def convert_raw_response_body_def
      length_payload_def content_parts_of_def try_parse_value_def
      try_parse_function_call_from_text_def Let_def strip_hi startswith_def text_part_def)
  have n: \<open>\<not> startswith length_body ''data:''\<close>
    by (simp add: length_body_def startswith_def)
  show ?thesis
    by (simp add: decode_http_outcome_def Let_def s n l d)
qed

theorem non_streaming_always_stop_witness:
  \<open>resp_error_code (convert_raw_response_to_llm_response sample_externals length_payload False) = None
   \<and> resp_finish_reason (convert_raw_response_to_llm_response sample_externals length_payload False)
       = Some STOP
   \<and> parse_raw_streaming_response sample_externals hello_body False
       = Inr (final_response [text_part ''Hello''] STOP)
   \<and> resp_error_code (final_response [text_part ''Hello''] STOP) = None
   \<and> resp_finish_reason (final_response [text_part ''Hello''] STOP) = Some STOP
   \<and> resp_error_code (decode_http_outcome sample_externals [] (HttpResponse True length_body)) = None
   \<and> resp_finish_reason (decode_http_outcome sample_externals [] (HttpResponse True length_body))
       = Some STOP\<close>
  using non_streaming_always_stop [of sample_externals length_payload False hello_body
      \<open>final_response [text_part ''Hello''] STOP\<close> \<open>[]\<close> \<open>HttpResponse True length_body\<close>]
    length_payload_decoded hello_parsed [of False] length_body_decoded [of \<open>[]\<close>]
  by simp

lemma tool_call_part_read:
  assumes \<open>read_tool_call X tc \<noteq> Unread\<close>
  shows \<open>tool_call_part X tc = Inr (case read_part (read_tool_call X tc) of [] \<Rightarrow> None | p # ps \<Rightarrow> Some p)\<close>
  using assms
  unfolding read_tool_call_def
  by (auto simp add: tool_call_part_def tool_call_part_raw_def read_part_def
      loads_value_def from_function_call_def set_call_id_def empty_part_def
      split: json.split_asm option.splits if_split_asm)

lemma tool_call_parts_read:
  assumes \<open>list_all (\<lambda>tc. read_tool_call X tc \<noteq> Unread) tcs\<close>
  shows \<open>tool_call_parts X tcs = Inr (concat (map (\<lambda>tc. read_part (read_tool_call X tc)) tcs))\<close>
  using assms
proof (induction tcs)
  case Nil
  then show ?case by simp
next
  case (Cons tc tcs)
  then show ?case
    by (simp add: tool_call_part_read read_part_def split: call_reading.splits)
qed

text \<open>
  The decoder on tool calls inside the reading above. When the message of the first choice
  carries a content string and tool calls, and
  every tool call is well formed, has an argument string that does not decode, or lacks a
  required key, the decoder returns a successful response with finish reason STOP whose
  parts are the text part of the content followed by one function-call part per well-formed
  tool call, in order, with arguments \<open>{}\<close> for an empty or null argument string; the
  other tool calls are skipped one by one and the response is not an error.
\<close>

lemma content_and_tool_calls_decoded:
  assumes \<open>map_of d ''choices'' = Some (JArr (JObj choice # rest))\<close>
    and \<open>map_of choice ''message'' = Some (JObj msg)\<close>
    and \<open>map_of msg ''content'' = Some (JStr c)\<close> and \<open>c \<noteq> []\<close>
    and \<open>map_of msg ''tool_calls'' = Some (JArr tcs)\<close> and \<open>tcs \<noteq> []\<close>
    and \<open>list_all (\<lambda>tc. read_tool_call X tc \<noteq> Unread) tcs\<close>
  shows \<open>convert_raw_response_to_llm_response X (JObj d) has_function_responses =
           final_response
             (text_part c # concat (map (\<lambda>tc. read_part (read_tool_call X tc)) tcs)) STOP\<close>
  using assms
  by (simp add: convert_raw_response_to_llm_response_def convert_raw_response_body_def
      content_parts_of_def tool_call_parts_read text_part_def)

lemma sample_tool_calls_read:
  \<open>map (read_tool_call sample_externals) sample_tool_calls =
     [WellFormed (JStr ''c1'') ''get_weather'' [(''city'', JStr ''Singapore'')], Skipped, Skipped]\<close>
  by (simp add: sample_tool_calls_def read_tool_call_def sample_eval)

lemma content_and_tool_calls_decoded_witness:
  \<open>list_all (\<lambda>tc. read_tool_call sample_externals tc \<noteq> Unread) sample_tool_calls
   \<and> convert_raw_response_to_llm_response sample_externals (JObj tool_calls_payload) False =
       final_response
         [text_part ''Checking the weather.'',
          empty_part\<lparr>part_function_call :=
            Some \<lparr>fc_id = JStr ''c1'', fc_name = Some ''get_weather'',
                  fc_args = Some [(''city'', JStr ''Singapore'')]\<rparr>\<rparr>] STOP\<close>
proof -
  have a: \<open>list_all (\<lambda>tc. read_tool_call sample_externals tc \<noteq> Unread) sample_tool_calls\<close>
    using sample_tool_calls_read by (simp add: sample_tool_calls_def)
  have b: \<open>concat (map (\<lambda>tc. read_part (read_tool_call sample_externals tc)) sample_tool_calls)
      = [empty_part\<lparr>part_function_call :=
            Some \<lparr>fc_id = JStr ''c1'', fc_name = Some ''get_weather'',
                  fc_args = Some [(''city'', JStr ''Singapore'')]\<rparr>\<rparr>]\<close>
    using sample_tool_calls_read by (simp add: sample_tool_calls_def read_part_def)
  have c: \<open>sample_tool_calls \<noteq> []\<close>
    by (simp add: sample_tool_calls_def)
  show ?thesis
    using a b
      content_and_tool_calls_decoded [of tool_calls_payload \<open>[(''message'', JObj sample_message)]\<close>
        \<open>[]\<close> sample_message \<open>''Checking the weather.''\<close> sample_tool_calls sample_externals False]
      c
    by (simp add: tool_calls_payload_def sample_message_def)
qed

lemma object_arguments_first:
  \<open>tool_call_part sample_externals (hd object_arguments_calls)
     = Inr (Some (call_part ''c1'' ''get_weather'' (Some [(''city'', JStr ''Singapore'')])))\<close>
  by (simp add: object_arguments_calls_def tool_call_part_def tool_call_part_raw_def
      loads_value_def sample_eval from_function_call_def set_call_id_def call_part_def
      empty_part_def)

lemma object_arguments_second:
  \<open>tool_call_part sample_externals (object_arguments_calls ! 1) = Inl TypeError\<close>
  by (simp add: object_arguments_calls_def tool_call_part_def tool_call_part_raw_def
      loads_value_def)

text \<open>
  C8. The specification asks that one tool call that cannot be read costs that tool call only. Take
  a message with content and two tool calls, the first well formed, the second with an
  object in place of the argument string. Decoding the second raises \<open>TypeError\<close>, which
  the handler of the single tool call does not catch (it catches \<open>KeyError\<close> and
  \<open>JSONDecodeError\<close>): the text part and the part of the first tool call are lost and the
  whole response is a \<open>RAW_CONVERSION_ERROR\<close>.
\<close>

theorem object_arguments_abort:
  \<open>tool_call_part sample_externals (hd object_arguments_calls)
     = Inr (Some (call_part ''c1'' ''get_weather'' (Some [(''city'', JStr ''Singapore'')])))
   \<and> tool_call_part sample_externals (object_arguments_calls ! 1) = Inl TypeError
   \<and> convert_raw_response_to_llm_response sample_externals object_arguments_payload False
       = error_response ''RAW_CONVERSION_ERROR'' (StrOf TypeError)\<close>
proof -
  have p: \<open>tool_call_parts sample_externals object_arguments_calls = Inl TypeError\<close>
    using object_arguments_first object_arguments_second
    by (simp add: object_arguments_calls_def)
  have n: \<open>object_arguments_calls \<noteq> []\<close>
    by (simp add: object_arguments_calls_def)
  have \<open>convert_raw_response_to_llm_response sample_externals object_arguments_payload False
       = error_response ''RAW_CONVERSION_ERROR'' (StrOf TypeError)\<close>
    using n
    by (simp add: convert_raw_response_to_llm_response_def convert_raw_response_body_def
        object_arguments_payload_def content_parts_of_def text_part_def p)
  then show ?thesis
    using object_arguments_first object_arguments_second by simp
qed

lemma line_content_read:
  assumes \<open>read_line X l \<noteq> UnreadFrame\<close>
  shows \<open>line_content X l =
           Inr (case read_line X l of Fragment s \<Rightarrow> Some (JStr s) | _ \<Rightarrow> None)\<close>
  using assms
  unfolding read_line_def read_frame_def
  by (auto simp add: line_content_def frame_content_def Let_def
      split: json.split_asm option.split_asm if_split_asm list.split_asm)

lemma collect_content_read:
  assumes \<open>list_all (\<lambda>l. read_line X l \<noteq> UnreadFrame) ls\<close>
  shows \<open>collect_content X ls =
           Inr (concat (map (\<lambda>l. case read_line X l of Fragment s \<Rightarrow> [JStr s] | _ \<Rightarrow> []) ls))\<close>
  using assms
proof (induction ls)
  case Nil
  then show ?case by simp
next
  case (Cons l ls)
  then show ?case
    by (simp add: line_content_read split: frame_reading.splits)
qed

lemma join_fragments:
  \<open>join_strings (concat (map (\<lambda>l. case read_line X l of Fragment s \<Rightarrow> [JStr s] | _ \<Rightarrow> []) ls))
    = Inr (concat (map (\<lambda>l. fragment_text (read_line X l)) ls))\<close>
  by (induction ls) (simp_all add: fragment_text_def split: frame_reading.splits)

lemma parse_streaming_read:
  assumes \<open>list_all (\<lambda>l. read_line X l \<noteq> UnreadFrame) (split_on newline response_text)\<close>
  shows \<open>parse_raw_streaming_response X response_text h =
     (if concat (map (\<lambda>l. fragment_text (read_line X l)) (split_on newline response_text)) = []
      then Inr (error_response ''NO_CONTENT'' (Text ''No content found in streaming response''))
      else
        (case try_parse_function_call_from_text X
                (concat (map (\<lambda>l. fragment_text (read_line X l)) (split_on newline response_text)))
                (\<not> h) of
           Inl e \<Rightarrow> Inl e
         | Inr None \<Rightarrow>
             Inr (final_response
                    [text_part (concat (map (\<lambda>l. fragment_text (read_line X l))
                                          (split_on newline response_text)))] STOP)
         | Inr (Some p) \<Rightarrow> Inr (final_response [p] STOP)))\<close>
  using assms
  by (simp add: parse_raw_streaming_response_def collect_content_read join_fragments
      del: concat_eq_Nil_conv split: sum.splits option.splits)

text \<open>
  The decoder on a body inside the reading above. For a raw response whose stripped body
  starts with \<open>data:\<close>, and in which
  every line is inside the reading above, the decoder concatenates the fragments of the
  frames in line order. An empty concatenation gives the \<open>NO_CONTENT\<close> error; otherwise the
  result is a final response with finish reason STOP that carries the recovered
  function-call part when the recovery applies to the concatenation and the concatenation
  as one text part when it does not (an exception of the recovery gives the
  \<open>ASYNC_RAW_HTTP_ERROR\<close> response). In particular the body
  \<open>data: {"choices":[{"delta":{"content":"Hello"}}]}\<close> is decoded to the final text
  \<open>Hello\<close> with finish reason STOP, whenever the frame decodes to the value it denotes.
\<close>

lemma sse_body_decoded:
  \<open>(startswith (strip body) ''data:''
     \<and> list_all (\<lambda>l. read_line X l \<noteq> UnreadFrame) (split_on newline (strip body))
     \<longrightarrow>
       decode_http_outcome X messages (HttpResponse True body) =
         (if stream_text X body = []
          then error_response ''NO_CONTENT'' (Text ''No content found in streaming response'')
          else
            (case try_parse_function_call_from_text X (stream_text X body)
                    (\<not> has_tool_message messages) of
               Inl e \<Rightarrow> error_response ''ASYNC_RAW_HTTP_ERROR'' (StrOf e)
             | Inr None \<Rightarrow> final_response [text_part (stream_text X body)] STOP
             | Inr (Some p) \<Rightarrow> final_response [p] STOP)))
   \<and> (json_loads X ''{"choices":[{"delta":{"content":"Hello"}}]}''
         = Some (JObj [(''choices'', JArr [JObj [(''delta'', JObj [(''content'', JStr ''Hello'')])]])])
     \<longrightarrow>
       decode_http_outcome X messages (HttpResponse True hello_body)
         = final_response [text_part ''Hello''] STOP)\<close>
proof (intro conjI impI)
  assume a: \<open>startswith (strip body) ''data:''
     \<and> list_all (\<lambda>l. read_line X l \<noteq> UnreadFrame) (split_on newline (strip body))\<close>
  then show \<open>decode_http_outcome X messages (HttpResponse True body) =
         (if stream_text X body = []
          then error_response ''NO_CONTENT'' (Text ''No content found in streaming response'')
          else
            (case try_parse_function_call_from_text X (stream_text X body)
                    (\<not> has_tool_message messages) of
               Inl e \<Rightarrow> error_response ''ASYNC_RAW_HTTP_ERROR'' (StrOf e)
             | Inr None \<Rightarrow> final_response [text_part (stream_text X body)] STOP
             | Inr (Some p) \<Rightarrow> final_response [p] STOP))\<close>
    by (simp add: decode_http_outcome_def Let_def parse_streaming_read stream_text_def
        del: concat_eq_Nil_conv split: sum.splits option.splits)
next
  assume l: \<open>json_loads X ''{"choices":[{"delta":{"content":"Hello"}}]}''
         = Some (JObj [(''choices'', JArr [JObj [(''delta'', JObj [(''content'', JStr ''Hello'')])]])])\<close>
  have f: \<open>line_content X hello_body = Inr (Some (JStr ''Hello''))\<close>
    unfolding line_content_def hello_strip Let_def
    using l by (simp add: hello_body_def startswith_def frame_content_def)
  have p: \<open>parse_raw_streaming_response X hello_body h
     = Inr (final_response [text_part ''Hello''] STOP)\<close> for h
    by (simp add: parse_raw_streaming_response_def hello_lines f
      try_parse_function_call_from_text_def Let_def strip_def isspace_def whitespace_def
      startswith_def)
  have s: \<open>startswith hello_body ''data:''\<close>
    by (simp add: hello_body_def startswith_def)
  show \<open>decode_http_outcome X messages (HttpResponse True hello_body)
         = final_response [text_part ''Hello''] STOP\<close>
    by (simp add: decode_http_outcome_def Let_def hello_strip s p)
qed

lemma hello_done_strip: \<open>strip hello_done_body = hello_done_body\<close>
  by (simp add: hello_done_body_def hello_body_def newline_def strip_def isspace_def whitespace_def)

lemma hello_done_lines: \<open>split_on newline hello_done_body = [hello_body, ''data: [DONE]'']\<close>
  by (simp add: hello_done_body_def hello_body_def newline_def)

lemma hello_done_read:
  \<open>map (read_line sample_externals) [hello_body, ''data: [DONE]''] = [Fragment ''Hello'', NoFragment]\<close>
  unfolding list.map read_line_def hello_strip
  by (simp add: hello_body_def startswith_def sample_eval read_frame_def strip_def isspace_def
      whitespace_def)

lemma hello_not_call:
  \<open>try_parse_function_call_from_text X ''Hello'' a = Inr None\<close>
  by (simp add: try_parse_function_call_from_text_def Let_def strip_def isspace_def whitespace_def
      startswith_def)

lemma sse_body_decoded_witness:
  \<open>startswith (strip hello_done_body) ''data:''
   \<and> list_all (\<lambda>l. read_line sample_externals l \<noteq> UnreadFrame)
        (split_on newline (strip hello_done_body))
   \<and> decode_http_outcome sample_externals [] (HttpResponse True hello_done_body)
       = final_response [text_part ''Hello''] STOP
   \<and> json_loads sample_externals ''{"choices":[{"delta":{"content":"Hello"}}]}''
       = Some (JObj [(''choices'', JArr [JObj [(''delta'', JObj [(''content'', JStr ''Hello'')])]])])
   \<and> decode_http_outcome sample_externals [] (HttpResponse True hello_body)
       = final_response [text_part ''Hello''] STOP\<close>
proof -
  have a: \<open>startswith (strip hello_done_body) ''data:''\<close>
    unfolding hello_done_strip
    by (simp add: hello_done_body_def hello_body_def startswith_def)
  have b: \<open>list_all (\<lambda>l. read_line sample_externals l \<noteq> UnreadFrame)
        (split_on newline (strip hello_done_body))\<close>
    unfolding hello_done_strip hello_done_lines
    using hello_done_read by simp
  have c: \<open>stream_text sample_externals hello_done_body = ''Hello''\<close>
    unfolding stream_text_def hello_done_strip hello_done_lines
    using hello_done_read by (simp add: fragment_text_def)
  have d: \<open>json_loads sample_externals ''{"choices":[{"delta":{"content":"Hello"}}]}''
       = Some (JObj [(''choices'', JArr [JObj [(''delta'', JObj [(''content'', JStr ''Hello'')])]])])\<close>
    by (simp add: sample_eval)
  show ?thesis
    using a b c d sse_body_decoded [of hello_done_body sample_externals \<open>[]\<close>]
    by (simp add: hello_not_call)
qed

text \<open>
  C5. The specification asks that a body that starts with \<open>data:\<close> is read frame by frame. The
  body \<open>data:{"choices":[{"delta":{"content":"Hello"}}]}\<close>, without a space after the
  colon, starts with \<open>data:\<close> and is taken as a stream, and what follows the prefix decodes
  to a frame with the fragment \<open>Hello\<close>. The loop over the lines takes a line as a frame
  only when it starts with \<open>data: \<close>, with the space: the frame is passed over and the
  result is the \<open>NO_CONTENT\<close> error, not the final text \<open>Hello\<close>.
\<close>

theorem nospace_body_no_content:
  \<open>startswith (strip nospace_body) ''data:''
   \<and> json_loads sample_externals (drop 5 nospace_body)
       = Some (JObj [(''choices'', JArr [JObj [(''delta'', JObj [(''content'', JStr ''Hello'')])]])])
   \<and> decode_http_outcome sample_externals [] (HttpResponse True nospace_body)
       = error_response ''NO_CONTENT'' (Text ''No content found in streaming response'')
   \<and> decode_http_outcome sample_externals [] (HttpResponse True nospace_body)
       \<noteq> final_response [text_part ''Hello''] STOP\<close>
proof -
  have s1: \<open>strip nospace_body = nospace_body\<close>
    by (simp add: nospace_body_def strip_def isspace_def whitespace_def)
  have p1: \<open>startswith nospace_body ''data:''\<close> \<open>\<not> startswith nospace_body ''data: ''\<close>
    by (simp_all add: nospace_body_def startswith_def)
  have l1: \<open>split_on newline nospace_body = [nospace_body]\<close>
    by (simp add: nospace_body_def newline_def)
  have j1: \<open>json_loads sample_externals (drop 5 nospace_body)
       = Some (JObj [(''choices'', JArr [JObj [(''delta'', JObj [(''content'', JStr ''Hello'')])]])])\<close>
    by (simp add: nospace_body_def sample_eval)
  have c1: \<open>line_content sample_externals nospace_body = Inr None\<close>
    by (simp add: line_content_def Let_def s1 p1)
  have d1: \<open>decode_http_outcome sample_externals [] (HttpResponse True nospace_body)
       = error_response ''NO_CONTENT'' (Text ''No content found in streaming response'')\<close>
    by (simp add: decode_http_outcome_def Let_def s1 p1 parse_raw_streaming_response_def l1 c1)
  show ?thesis
    using j1 d1 by (simp add: s1 p1 error_response_def final_response_def)
qed

text \<open>
  A frame that decodes to a value of another form, here with \<open>delta\<close> null, is not skipped
  either: the whole response is an \<open>ASYNC_RAW_HTTP_ERROR\<close>.
\<close>

lemma null_delta_body_error:
  \<open>startswith (strip null_delta_body) ''data:''
   \<and> json_loads sample_externals (drop 6 null_delta_body)
       = Some (JObj [(''choices'', JArr [JObj [(''delta'', JNull)]])])
   \<and> decode_http_outcome sample_externals [] (HttpResponse True null_delta_body)
       = error_response ''ASYNC_RAW_HTTP_ERROR'' (StrOf TypeError)\<close>
proof -
  have s2: \<open>strip null_delta_body = null_delta_body\<close>
    by (simp add: null_delta_body_def strip_def isspace_def whitespace_def)
  have p2: \<open>startswith null_delta_body ''data:''\<close> \<open>startswith null_delta_body ''data: ''\<close>
    by (simp_all add: null_delta_body_def startswith_def)
  have l2: \<open>split_on newline null_delta_body = [null_delta_body]\<close>
    by (simp add: null_delta_body_def newline_def)
  have j2: \<open>json_loads sample_externals (drop 6 null_delta_body)
       = Some (JObj [(''choices'', JArr [JObj [(''delta'', JNull)]])])\<close>
    by (simp add: null_delta_body_def sample_eval)
  have c2: \<open>line_content sample_externals null_delta_body = Inl TypeError\<close>
    by (simp add: line_content_def Let_def s2 p2 frame_content_def j2)
  have d2: \<open>decode_http_outcome sample_externals [] (HttpResponse True null_delta_body)
       = error_response ''ASYNC_RAW_HTTP_ERROR'' (StrOf TypeError)\<close>
    by (simp add: decode_http_outcome_def Let_def s2 p2 parse_raw_streaming_response_def l2 c2)
  show ?thesis
    using j2 d2 by (simp add: s2 p2)
qed

section \<open>Properties of the Streaming Reconstructor\<close>

lemma sublist_dropWhile_keep:
  assumes \<open>sublist p s\<close> and \<open>p \<noteq> []\<close> and \<open>\<not> Q (hd p)\<close>
  shows \<open>sublist p (dropWhile Q s)\<close>
proof -
  obtain a b where s: \<open>s = a @ p @ b\<close>
    using assms(1) by (auto simp add: sublist_def)
  show ?thesis
  proof (cases \<open>\<forall>x\<in>set a. Q x\<close>)
    case True
    then have \<open>dropWhile Q s = dropWhile Q (p @ b)\<close>
      by (simp add: s dropWhile_append2)
    also have \<open>\<dots> = p @ b\<close>
      using assms(2,3) by (cases p) simp_all
    finally show ?thesis by simp
  next
    case False
    then obtain x where \<open>x \<in> set a\<close> \<open>\<not> Q x\<close> by auto
    then have \<open>dropWhile Q s = dropWhile Q a @ p @ b\<close>
      by (simp add: s dropWhile_append1)
    then show ?thesis by simp
  qed
qed

lemma sublist_strip:
  assumes \<open>p \<noteq> []\<close> and \<open>\<not> isspace (hd p)\<close> and \<open>\<not> isspace (last p)\<close>
  shows \<open>sublist p (strip s) = sublist p s\<close>
proof
  assume \<open>sublist p (strip s)\<close>
  moreover have \<open>sublist (strip s) s\<close>
  proof -
    have \<open>sublist (rev (dropWhile isspace (rev (dropWhile isspace s)))) (rev (rev (dropWhile isspace s)))\<close>
      unfolding sublist_rev by simp
    then have \<open>sublist (strip s) (dropWhile isspace s)\<close>
      by (simp add: strip_def)
    then show ?thesis
      using sublist_dropWhile [of isspace s] sublist_order.order.trans by blast
  qed
  ultimately show \<open>sublist p s\<close>
    using sublist_order.order.trans by blast
next
  assume a: \<open>sublist p s\<close>
  have 1: \<open>sublist p (dropWhile isspace s)\<close>
    using a assms by (simp add: sublist_dropWhile_keep)
  have \<open>sublist (rev p) (rev (dropWhile isspace s))\<close>
    using 1 by simp
  then have \<open>sublist (rev p) (dropWhile isspace (rev (dropWhile isspace s)))\<close>
    using assms by (simp add: sublist_dropWhile_keep hd_rev)
  then have \<open>sublist (rev (rev p)) (rev (dropWhile isspace (rev (dropWhile isspace s))))\<close>
    unfolding sublist_rev .
  then show \<open>sublist p (strip s)\<close>
    by (simp add: strip_def)
qed

lemma looks_like_contains:
  \<open>looks_like_function_call_in_progress c
     = (sublist ''{"name"'' c \<or> sublist ''{"type"'' c)\<close>
proof -
  have n: \<open>sublist ''{"name"'' (strip c) = sublist ''{"name"'' c\<close>
    by (rule sublist_strip) (simp_all add: isspace_def whitespace_def)
  have t: \<open>sublist ''{"type"'' (strip c) = sublist ''{"type"'' c\<close>
    by (rule sublist_strip) (simp_all add: isspace_def whitespace_def)
  have p: \<open>prefix q (strip c) \<Longrightarrow> sublist q (strip c)\<close> for q
    by (simp add: prefix_imp_sublist)
  show ?thesis
    unfolding looks_like_function_call_in_progress_def Let_def startswith_def contains_def
    using n t p by auto
qed

lemma looks_like_append:
  \<open>looks_like_function_call_in_progress c \<Longrightarrow> looks_like_function_call_in_progress (c @ t)\<close>
  unfolding looks_like_contains
  by (auto simp add: sublist_append)

lemma handle_completion_not_partial:
  \<open>filter is_partial (fst (handle_completion X st fr)) = []\<close>
  by (simp add: handle_completion_def is_partial_def Let_def
      split: sum.splits option.splits)

lemma process_chunk_content:
  \<open>\<exists>t. accumulated_content (fst (process_chunk X st ch)) = accumulated_content st @ t\<close>
  by (cases ch)
     (auto simp add: process_chunk_def Let_def split: list.splits prod.splits)

lemma process_chunk_keeps_looking:
  assumes \<open>looks_like_function_call_in_progress (accumulated_content st)\<close>
  shows \<open>looks_like_function_call_in_progress (accumulated_content (fst (process_chunk X st ch)))\<close>
  using process_chunk_content [of X st ch] assms looks_like_append
  by auto

lemma object_chunk_suppressed:
  assumes \<open>is_object_chunk ch\<close>
    and \<open>looks_like_function_call_in_progress (accumulated_content (fst (process_chunk X st ch)))\<close>
  shows \<open>filter is_partial (fst (snd (process_chunk X st ch))) = []\<close>
proof (cases ch)
  case (StrChunk t)
  then show ?thesis using assms(1) by (simp add: is_object_chunk_def)
next
  case (ObjChunk cs)
  show ?thesis
  proof (cases cs)
    case Nil
    then show ?thesis by (simp add: ObjChunk process_chunk_def)
  next
    case (Cons choice rest)
    define token where \<open>token = opt_list (delta_content (choice_delta choice))\<close>
    define st1 where
      \<open>st1 = (if token \<noteq> [] then st\<lparr>accumulated_content := accumulated_content st @ token\<rparr>
              else st)\<close>
    define out1 where
      \<open>out1 = (if token \<noteq> [] \<and> \<not> looks_like_function_call_in_progress (accumulated_content st1)
               then [partial_response token] else [])\<close>
    define st2 where
      \<open>st2 = st1\<lparr>accumulated_tool_calls :=
                    foldl accumulate_tool_call (accumulated_tool_calls st1)
                      (opt_list (delta_tool_calls (choice_delta choice)))\<rparr>\<close>
    define out2 where
      \<open>out2 = (if opt_list (choice_finish_reason choice) \<noteq> []
               then fst (handle_completion X st2 (choice_finish_reason choice)) else [])\<close>
    have pc: \<open>fst (process_chunk X st ch) = st2\<close> \<open>fst (snd (process_chunk X st ch)) = out1 @ out2\<close>
      by (simp_all add: ObjChunk Cons process_chunk_def Let_def token_def st1_def out1_def
          st2_def out2_def split: prod.splits)
    have \<open>accumulated_content st2 = accumulated_content st1\<close>
      by (simp add: st2_def)
    then have \<open>out1 = []\<close>
      using assms(2) by (simp add: pc out1_def)
    moreover have \<open>filter is_partial out2 = []\<close>
      by (simp add: out2_def handle_completion_not_partial)
    ultimately show ?thesis
      by (simp add: pc)
  qed
qed

lemma yielded_Cons:
  \<open>yielded X st (ch # chs) =
     fst (snd (process_chunk X st ch))
     @ (if snd (snd (process_chunk X st ch)) = None
        then yielded X (fst (process_chunk X st ch)) chs else [])\<close>
  by (auto simp add: yielded_def split: prod.splits option.splits)

lemma object_chunks_suppressed:
  assumes \<open>list_all is_object_chunk chs\<close>
    and \<open>looks_like_function_call_in_progress (accumulated_content st)\<close>
  shows \<open>filter is_partial (yielded X st chs) = []\<close>
  using assms
proof (induction chs arbitrary: st)
  case Nil
  then show ?case by (simp add: yielded_def)
next
  case (Cons ch chs)
  have k: \<open>looks_like_function_call_in_progress (accumulated_content (fst (process_chunk X st ch)))\<close>
    using Cons.prems(2) by (rule process_chunk_keeps_looking)
  have \<open>filter is_partial (fst (snd (process_chunk X st ch))) = []\<close>
    using Cons.prems(1) k by (simp add: object_chunk_suppressed)
  moreover have \<open>filter is_partial (yielded X (fst (process_chunk X st ch)) chs) = []\<close>
    using Cons.IH Cons.prems(1) k by simp
  ultimately show ?case
    by (simp add: yielded_Cons)
qed

text \<open>
  The suppression for chunk objects. Take the loop in any state and a chunk object whose token makes the
  accumulated text contain \<open>{"name"\<close> or \<open>{"type"\<close> (after stripping, it starts with or
  contains one of them). Then no partial response is yielded for that chunk, nor for any
  chunk object after it; the accumulated text keeps looking like a function call whatever
  chunk follows.
\<close>

lemma suppression_persists:
  assumes \<open>is_object_chunk ch\<close> and \<open>list_all is_object_chunk chs\<close>
    and \<open>looks_like_function_call_in_progress (accumulated_content (fst (process_chunk X st ch)))\<close>
  shows \<open>filter is_partial (yielded X st (ch # chs)) = []\<close>
proof -
  have \<open>filter is_partial (fst (snd (process_chunk X st ch))) = []\<close>
    using assms(1,3) by (rule object_chunk_suppressed)
  moreover have \<open>filter is_partial (yielded X (fst (process_chunk X st ch)) chs) = []\<close>
    using assms(2,3) by (rule object_chunks_suppressed)
  ultimately show ?thesis
    by (simp add: yielded_Cons)
qed

lemma token_chunk_step:
  \<open>process_chunk X st (token_chunk (c # cs)) =
     (st\<lparr>accumulated_content := accumulated_content st @ c # cs\<rparr>,
      if looks_like_function_call_in_progress (accumulated_content st @ c # cs) then []
      else [partial_response (c # cs)],
      None)\<close>
  by (cases st) (simp add: process_chunk_def token_chunk_def opt_list_def Let_def)

lemma string_chunk_step:
  \<open>process_chunk X st (StrChunk t) =
     (st\<lparr>accumulated_content := accumulated_content st @ t\<rparr>, [partial_response t], None)\<close>
  by (simp add: process_chunk_def)

lemma suppression_persists_witness:
  \<open>is_object_chunk (token_chunk ''"'')
   \<and> list_all is_object_chunk [token_chunk '':'']
   \<and> looks_like_function_call_in_progress
        (accumulated_content (fst (process_chunk sample_externals name_state (token_chunk ''"''))))
   \<and> filter is_partial (yielded sample_externals name_state [token_chunk ''"'', token_chunk '':'']) = []
   \<and> stream_completion sample_externals
        [token_chunk ''{'', token_chunk ''"'', token_chunk ''name'', token_chunk ''"'',
         token_chunk '':''] False
       = [partial_response ''{'', partial_response ''"'', partial_response ''name'']\<close>
proof -
  have a: \<open>is_object_chunk (token_chunk ''"'')\<close> \<open>list_all is_object_chunk [token_chunk '':'']\<close>
    by (simp_all add: is_object_chunk_def token_chunk_def)
  have b: \<open>looks_like_function_call_in_progress
        (accumulated_content (fst (process_chunk sample_externals name_state (token_chunk ''"''))))\<close>
    by (simp add: token_chunk_step name_state_def looks_like_contains sublist_code)
  have c: \<open>stream_completion sample_externals
        [token_chunk ''{'', token_chunk ''"'', token_chunk ''name'', token_chunk ''"'',
         token_chunk '':''] False
       = [partial_response ''{'', partial_response ''"'', partial_response ''name'']\<close>
    by (simp add: stream_completion_def token_chunk_step initial_state_def looks_like_contains
        sublist_code)
  show ?thesis
    using a b c suppression_persists [OF a b]
    by simp
qed

text \<open>
  C4. The specification asks that no partial text is emitted once the accumulated text looks like
  a function call. The branch for a chunk object tests this before it yields; the branch
  for a chunk that is a bare string appends the string and yields it without the test.
  After the token \<open>{"name"\<close> the accumulated text looks like a function call, and the
  next chunk, the bare string \<open>: "get_weather"\<close>, is yielded as a partial response all
  the same.
\<close>

theorem string_chunk_emitted:
  \<open>looks_like_function_call_in_progress ''{"name"''
   \<and> stream_completion sample_externals
        [token_chunk ''{"name"'', StrChunk '': "get_weather"''] False
       = [partial_response '': "get_weather"'']\<close>
  by (simp add: stream_completion_def token_chunk_step string_chunk_step initial_state_def
      looks_like_contains sublist_code)

theorem string_chunk_emitted_witness:
  \<open>filter is_partial
      (stream_completion sample_externals
         [token_chunk ''{"name"'', StrChunk '': "get_weather"''] False)
     = [partial_response '': "get_weather"'']\<close>
  using string_chunk_emitted
  by (simp add: is_partial_def)

lemma name_shape_recovered:
  \<open>try_parse_function_call_from_text sample_externals text_name_shape True
     = Inr (Some (call_part ''call_60'' ''get_weather'' (Some [(''city'', JStr ''Singapore'')])))\<close>
  by (simp add: try_parse_function_call_from_text_def Let_def strip_texts bounded_texts
      loads_texts dict_or_empty_def is_dict_def make_recovered_call_def from_function_call_def
      set_call_id_def synth_call_id_def call_part_def empty_part_def)
     (simp add: sample_texts sample_externals_def str_nat.simps digit_char_def)

lemma name_shape_looks_like:
  \<open>looks_like_function_call_in_progress text_name_shape\<close>
  by (simp add: text_name_shape_def looks_like_contains sublist_code)

lemma name_shape_token_step:
  \<open>process_chunk sample_externals initial_state (token_chunk text_name_shape) =
     (\<lparr>accumulated_content = text_name_shape, accumulated_tool_calls = []\<rparr>, [], None)\<close>
proof -
  have n: \<open>text_name_shape = hd text_name_shape # tl text_name_shape\<close>
    by (simp add: text_name_shape_def)
  have \<open>process_chunk sample_externals initial_state (token_chunk (hd text_name_shape # tl text_name_shape)) =
     (initial_state\<lparr>accumulated_content := accumulated_content initial_state @ hd text_name_shape # tl text_name_shape\<rparr>,
      if looks_like_function_call_in_progress (accumulated_content initial_state @ hd text_name_shape # tl text_name_shape) then []
      else [partial_response (hd text_name_shape # tl text_name_shape)],
      None)\<close>
    by (rule token_chunk_step)
  then show ?thesis
    unfolding n [symmetric]
    by (simp add: initial_state_def name_shape_looks_like)
qed

lemma call_fragment_step:
  \<open>process_chunk sample_externals
      \<lparr>accumulated_content = c, accumulated_tool_calls = []\<rparr> call_fragment_chunk =
     (\<lparr>accumulated_content = c,
       accumulated_tool_calls =
         [(0, \<lparr>tc_id = ''c1'', tc_name = ''get_weather'',
               tc_arguments = ''{"city": "Singapore"}''\<rparr>)]\<rparr>, [], None)\<close>
  by (simp add: process_chunk_def call_fragment_chunk_def Let_def opt_list_def
      accumulate_tool_call_def update_entry_def)

lemma finish_step:
  \<open>process_chunk sample_externals
      \<lparr>accumulated_content = text_name_shape,
       accumulated_tool_calls =
         [(0, \<lparr>tc_id = ''c1'', tc_name = ''get_weather'',
               tc_arguments = ''{"city": "Singapore"}''\<rparr>)]\<rparr> (finish_chunk ''tool_calls'') =
     (\<lparr>accumulated_content = text_name_shape,
       accumulated_tool_calls =
         [(0, \<lparr>tc_id = ''c1'', tc_name = ''get_weather'',
               tc_arguments = ''{"city": "Singapore"}''\<rparr>)]\<rparr>,
      [final_response
         [call_part ''call_60'' ''get_weather'' (Some [(''city'', JStr ''Singapore'')])] STOP,
       final_response
         [call_part ''c1'' ''get_weather'' (Some [(''city'', JStr ''Singapore'')])] STOP],
      None)\<close>
proof -
  have t: \<open>text_name_shape \<noteq> []\<close>
    by (simp add: text_name_shape_def)
  have a: \<open>decode_arguments sample_externals ''{"city": "Singapore"}''
             = JObj [(''city'', JStr ''Singapore'')]\<close>
    by (simp add: decode_arguments_def sample_eval)
  show ?thesis
    by (simp add: process_chunk_def finish_chunk_def Let_def opt_list_def handle_completion_def
        t name_shape_recovered a from_function_call_def set_call_id_def call_part_def
        empty_part_def convert_finish_reason_def)
qed

text \<open>
  C1. The specification asks for one final response per stream, with all parts of the finish step
  in it. Take a stream of three chunk objects: the text
  \<open>{"name": "get_weather", "parameters": {"city": "Singapore"}}\<close> as one token (withheld,
  since it looks like a function call), a tool-call fragment with a name, and the finish
  signal \<open>tool_calls\<close>. At the finish signal the recovery succeeds on the accumulated text
  and its function-call part is yielded at once, as a final response of its own; the loop
  over the accumulated tool calls then yields a second final response with the part of the
  fragment. The stream ends with two final responses, each with one part.
\<close>

theorem recovered_call_yielded_apart:
  \<open>stream_completion sample_externals
      [token_chunk text_name_shape, call_fragment_chunk, finish_chunk ''tool_calls''] False
     = [final_response
          [call_part ''call_60'' ''get_weather'' (Some [(''city'', JStr ''Singapore'')])] STOP,
        final_response
          [call_part ''c1'' ''get_weather'' (Some [(''city'', JStr ''Singapore'')])] STOP]\<close>
  by (simp add: stream_completion_def name_shape_token_step call_fragment_step finish_step)

theorem recovered_call_yielded_apart_witness:
  \<open>length (filter (\<lambda>r. \<not> is_partial r)
      (stream_completion sample_externals
         [token_chunk text_name_shape, call_fragment_chunk, finish_chunk ''tool_calls''] False))
     = 2\<close>
  using recovered_call_yielded_apart
  by (simp add: is_partial_def)

end
